theory Spec2Isabelle
  imports Complex_Main
begin

section \<open>JavaScript numbers\<close>

text \<open>
  The source computes with IEEE doubles. Finite numbers are modelled as \<^typ>\<open>real\<close>;
  rounding and overflow are not modelled, and the arguments of the modelled functions
  are finite numbers. The modelled code can produce \<open>NaN\<close> from finite inputs:
  reading the field \<open>totalCost\<close> of the plain number \<open>0\<close> yields \<open>undefined\<close>, and
  arithmetic on \<open>undefined\<close> yields \<open>NaN\<close>. The places that can hold it (cash, total
  value and what is computed from them) have type \<open>jsnum\<close>. Every comparison with \<open>NaN\<close>
  is false, and \<open>NaN\<close> propagates through arithmetic. Infinities are not represented in
  \<open>jsnum\<close>; the amounts of the cost model, which come from a quotient and from
  \<open>Math.pow\<close>, and the scores of the optimizer, which are compared with \<open>-Infinity\<close>,
  have types of their own.
\<close>

datatype jsnum = Num real | NaN

instantiation jsnum :: "{plus, minus, times, inverse, ord}"
begin

definition plus_jsnum :: "jsnum \<Rightarrow> jsnum \<Rightarrow> jsnum" where
  "plus_jsnum a b = (case (a, b) of (Num x, Num y) \<Rightarrow> Num (x + y) | _ \<Rightarrow> NaN)"

definition minus_jsnum :: "jsnum \<Rightarrow> jsnum \<Rightarrow> jsnum" where
  "minus_jsnum a b = (case (a, b) of (Num x, Num y) \<Rightarrow> Num (x - y) | _ \<Rightarrow> NaN)"

definition times_jsnum :: "jsnum \<Rightarrow> jsnum \<Rightarrow> jsnum" where
  "times_jsnum a b = (case (a, b) of (Num x, Num y) \<Rightarrow> Num (x * y) | _ \<Rightarrow> NaN)"

text \<open>A quotient by zero is an infinity or \<open>NaN\<close> in the source and is \<open>NaN\<close> here. The
  divisors of \<open>calculateReturns\<close> and \<open>getPerformanceStats\<close> have been checked to be
  positive (or are \<open>NaN\<close>) before they are used; no property below rests on a quotient
  by zero.\<close>

definition divide_jsnum :: "jsnum \<Rightarrow> jsnum \<Rightarrow> jsnum" where
  "divide_jsnum a b =
     (case (a, b) of (Num x, Num y) \<Rightarrow> if y = 0 then NaN else Num (x / y) | _ \<Rightarrow> NaN)"

definition inverse_jsnum :: "jsnum \<Rightarrow> jsnum" where
  "inverse_jsnum a = (case a of Num x \<Rightarrow> if x = 0 then NaN else Num (1 / x) | NaN \<Rightarrow> NaN)"

definition less_jsnum :: "jsnum \<Rightarrow> jsnum \<Rightarrow> bool" where
  "less_jsnum a b = (case (a, b) of (Num x, Num y) \<Rightarrow> x < y | _ \<Rightarrow> False)"

definition less_eq_jsnum :: "jsnum \<Rightarrow> jsnum \<Rightarrow> bool" where
  "less_eq_jsnum a b = (case (a, b) of (Num x, Num y) \<Rightarrow> x \<le> y | _ \<Rightarrow> False)"

instance ..

end

subsection \<open>Numbers with infinities\<close>

text \<open>
  A quotient by zero and \<open>Math.pow\<close> give \<open>Infinity\<close>, \<open>-Infinity\<close> and \<open>NaN\<close> from
  finite arguments. The numbers they produce, and what is computed from those, have type
  \<open>extnum\<close>, with the arithmetic and the comparisons of the source on all four kinds of
  value. The model has one zero; it stands for \<open>+0\<close>.
\<close>

datatype extnum = Finite real | PosInfinity | NegInfinity | NotANumber

fun add_extnum :: "extnum \<Rightarrow> extnum \<Rightarrow> extnum" where
  "add_extnum (Finite x) (Finite y) = Finite (x + y)"
| "add_extnum NotANumber b = NotANumber"
| "add_extnum a NotANumber = NotANumber"
| "add_extnum PosInfinity NegInfinity = NotANumber"
| "add_extnum NegInfinity PosInfinity = NotANumber"
| "add_extnum PosInfinity b = PosInfinity"
| "add_extnum a PosInfinity = PosInfinity"
| "add_extnum NegInfinity b = NegInfinity"
| "add_extnum a NegInfinity = NegInfinity"

text \<open>An infinity with the sign of \<open>x\<close>; \<open>0 * Infinity\<close> is \<open>NaN\<close>.\<close>

definition signed_infinity :: "real \<Rightarrow> extnum" where
  "signed_infinity x = (if 0 < x then PosInfinity else if x < 0 then NegInfinity else NotANumber)"

fun mul_extnum :: "extnum \<Rightarrow> extnum \<Rightarrow> extnum" where
  "mul_extnum (Finite x) (Finite y) = Finite (x * y)"
| "mul_extnum NotANumber b = NotANumber"
| "mul_extnum a NotANumber = NotANumber"
| "mul_extnum (Finite x) PosInfinity = signed_infinity x"
| "mul_extnum (Finite x) NegInfinity = signed_infinity (- x)"
| "mul_extnum PosInfinity (Finite y) = signed_infinity y"
| "mul_extnum NegInfinity (Finite y) = signed_infinity (- y)"
| "mul_extnum PosInfinity PosInfinity = PosInfinity"
| "mul_extnum PosInfinity NegInfinity = NegInfinity"
| "mul_extnum NegInfinity PosInfinity = NegInfinity"
| "mul_extnum NegInfinity NegInfinity = PosInfinity"

text \<open>A finite quotient by zero is an infinity with the sign of the numerator, and
  \<open>0 / 0\<close> is \<open>NaN\<close>; a finite number divided by an infinity is zero.\<close>

fun div_extnum :: "extnum \<Rightarrow> extnum \<Rightarrow> extnum" where
  "div_extnum (Finite x) (Finite y) = (if y = 0 then signed_infinity x else Finite (x / y))"
| "div_extnum NotANumber b = NotANumber"
| "div_extnum a NotANumber = NotANumber"
| "div_extnum (Finite x) b = Finite 0"
| "div_extnum PosInfinity (Finite y) = (if y < 0 then NegInfinity else PosInfinity)"
| "div_extnum NegInfinity (Finite y) = (if y < 0 then PosInfinity else NegInfinity)"
| "div_extnum a b = NotANumber"

fun less_extnum_fun :: "extnum \<Rightarrow> extnum \<Rightarrow> bool" where
  "less_extnum_fun (Finite x) (Finite y) = (x < y)"
| "less_extnum_fun NotANumber b = False"
| "less_extnum_fun a NotANumber = False"
| "less_extnum_fun PosInfinity b = False"
| "less_extnum_fun a NegInfinity = False"
| "less_extnum_fun a b = True"

fun less_eq_extnum_fun :: "extnum \<Rightarrow> extnum \<Rightarrow> bool" where
  "less_eq_extnum_fun (Finite x) (Finite y) = (x \<le> y)"
| "less_eq_extnum_fun NotANumber b = False"
| "less_eq_extnum_fun a NotANumber = False"
| "less_eq_extnum_fun NegInfinity b = True"
| "less_eq_extnum_fun a PosInfinity = True"
| "less_eq_extnum_fun a b = False"

instantiation extnum :: "{plus, times, inverse, ord}"
begin

definition plus_extnum :: "extnum \<Rightarrow> extnum \<Rightarrow> extnum" where
  "plus_extnum a b = add_extnum a b"

definition times_extnum :: "extnum \<Rightarrow> extnum \<Rightarrow> extnum" where
  "times_extnum a b = mul_extnum a b"

definition divide_extnum :: "extnum \<Rightarrow> extnum \<Rightarrow> extnum" where
  "divide_extnum a b = div_extnum a b"

definition inverse_extnum :: "extnum \<Rightarrow> extnum" where
  "inverse_extnum a = div_extnum (Finite 1) a"

definition less_extnum :: "extnum \<Rightarrow> extnum \<Rightarrow> bool" where
  "less_extnum a b = less_extnum_fun a b"

definition less_eq_extnum :: "extnum \<Rightarrow> extnum \<Rightarrow> bool" where
  "less_eq_extnum a b = less_eq_extnum_fun a b"

instance ..

end

text \<open>Between the two types: \<open>widen\<close> is exact; \<open>narrow\<close> is exact on every value that
  is not an infinity.\<close>

definition widen :: "jsnum \<Rightarrow> extnum" where
  "widen a = (case a of Num x \<Rightarrow> Finite x | NaN \<Rightarrow> NotANumber)"

definition narrow :: "extnum \<Rightarrow> jsnum" where
  "narrow a = (case a of Finite x \<Rightarrow> Num x | _ \<Rightarrow> NaN)"

text \<open>\<open>ToNumber\<close> of a field read: \<open>undefined\<close> (a missing field) converts to \<open>NaN\<close>.\<close>

definition ToNumber :: "extnum option \<Rightarrow> extnum" where
  "ToNumber v = (case v of None \<Rightarrow> NotANumber | Some x \<Rightarrow> x)"

text \<open>The idiom \<open>x || d\<close> on a number that may be missing: \<open>undefined\<close> and \<open>0\<close> are
  falsy and give the default.\<close>

definition or_default :: "real option \<Rightarrow> real \<Rightarrow> real" where
  "or_default v d = (case v of None \<Rightarrow> d | Some x \<Rightarrow> if x = 0 then d else x)"

definition or_default_int :: "int option \<Rightarrow> int \<Rightarrow> int" where
  "or_default_int v d = (case v of None \<Rightarrow> d | Some x \<Rightarrow> if x = 0 then d else x)"

text \<open>
  \<open>Math.pow(base, y)\<close> for a finite exponent. Any base to the power \<open>0\<close> is \<open>1\<close>, also
  \<open>NaN\<close>. A negative base has a power only for an integer exponent, with the sign of
  the parity, and gives \<open>NaN\<close> otherwise. Zero to a negative power is \<open>Infinity\<close>.
\<close>

definition Math_pow :: "extnum \<Rightarrow> real \<Rightarrow> extnum" where
  "Math_pow base y =
     (if y = 0 then Finite 1
      else
        (case base of
           NotANumber \<Rightarrow> NotANumber
         | PosInfinity \<Rightarrow> if 0 < y then PosInfinity else Finite 0
         | NegInfinity \<Rightarrow>
             if 0 < y then (if y = of_int \<lfloor>y\<rfloor> \<and> odd \<lfloor>y\<rfloor> then NegInfinity else PosInfinity)
             else Finite 0
         | Finite x \<Rightarrow>
             if 0 < x then Finite (x powr y)
             else if x = 0 then (if 0 < y then Finite 0 else PosInfinity)
             else if y = of_int \<lfloor>y\<rfloor>
               then Finite ((if even \<lfloor>y\<rfloor> then 1 else - 1) * (- x) powr y)
             else NotANumber))"

subsection \<open>JavaScript arrays\<close>

text \<open>\<open>xs[i]\<close>: an index outside the array reads \<open>undefined\<close>.\<close>

definition js_index :: "'a list \<Rightarrow> int \<Rightarrow> 'a option" where
  "js_index xs i = (if 0 \<le> i \<and> i < int (length xs) then Some (xs ! nat i) else None)"

text \<open>\<open>xs.slice(start, end)\<close> on integers: a negative index counts from the end, and both
  are clamped to the array.\<close>

definition js_slice :: "'a list \<Rightarrow> int \<Rightarrow> int \<Rightarrow> 'a list" where
  "js_slice xs start fin =
     (let n = int (length xs);
          k = (if start < 0 then max (n + start) 0 else min start n);
          final = (if fin < 0 then max (n + fin) 0 else min fin n)
      in take (nat (final - k)) (drop (nat k) xs))"

section \<open>TransactionCostModel\<close>

record TransactionCostModel =
  fixedCost :: real
  variableCostBps :: real
  marketImpactBps :: real
  marketImpactExponent :: real
  bidAskSpreadBps :: real
  minTradeSize :: real

record CostConfig =
  cfg_fixedCost :: "real option"
  cfg_variableCostBps :: "real option"
  cfg_marketImpactBps :: "real option"
  cfg_marketImpactExponent :: "real option"
  cfg_bidAskSpreadBps :: "real option"
  cfg_minTradeSize :: "real option"

definition emptyCostConfig :: CostConfig where
  "emptyCostConfig = \<lparr> cfg_fixedCost = None, cfg_variableCostBps = None,
     cfg_marketImpactBps = None, cfg_marketImpactExponent = None,
     cfg_bidAskSpreadBps = None, cfg_minTradeSize = None \<rparr>"

text \<open>The constructor: every field is \<open>config.field || default\<close>.\<close>

definition new_TransactionCostModel :: "CostConfig \<Rightarrow> TransactionCostModel" where
  "new_TransactionCostModel config =
     \<lparr> fixedCost = or_default (cfg_fixedCost config) 0,
       variableCostBps = or_default (cfg_variableCostBps config) 5,
       marketImpactBps = or_default (cfg_marketImpactBps config) 2,
       marketImpactExponent = or_default (cfg_marketImpactExponent config) (1/2),
       bidAskSpreadBps = or_default (cfg_bidAskSpreadBps config) 3,
       minTradeSize = or_default (cfg_minTradeSize config) 100 \<rparr>"

record CostBreakdown =
  fixedCostAmount :: extnum
  variableCost :: extnum
  marketImpact :: extnum
  bidAskSpread :: extnum
  totalCost :: extnum

text \<open>What \<open>calculateTradeCost\<close> returns: the plain number \<open>0\<close>, or the breakdown
  object. (The breakdown's first field is called \<open>fixedCost\<close> in the source.)\<close>

datatype CostResult = PlainZero | Breakdown CostBreakdown

text \<open>The second argument is optional in the source and defaults to \<open>1000000\<close>. The
  fields of the model and the trade value are finite numbers, and so are the products
  and quotients of them by constants; the volume ratio and the power are not always.\<close>

definition calculateTradeCost ::
  "TransactionCostModel \<Rightarrow> real \<Rightarrow> real option \<Rightarrow> CostResult" where
  "calculateTradeCost m tradeValue averageDailyVolume =
     (if \<bar>tradeValue\<bar> < minTradeSize m then PlainZero
      else
        let adv = (case averageDailyVolume of None \<Rightarrow> 1000000 | Some v \<Rightarrow> v);
            absTradeValue = \<bar>tradeValue\<bar>;
            fixedCostAmt = Finite (fixedCost m);
            variableCostAmount = Finite (absTradeValue * (variableCostBps m / 10000));
            volumeRatio = Finite absTradeValue / Finite adv;
            marketImpactAmount = Finite (absTradeValue * (marketImpactBps m / 10000))
                                  * Math_pow volumeRatio (marketImpactExponent m);
            bidAskCostAmount = Finite (absTradeValue * (bidAskSpreadBps m / 10000))
        in Breakdown \<lparr> fixedCostAmount = fixedCostAmt,
                       variableCost = variableCostAmount,
                       marketImpact = marketImpactAmount,
                       bidAskSpread = bidAskCostAmount,
                       totalCost = fixedCostAmt + variableCostAmount
                                   + marketImpactAmount + bidAskCostAmount \<rparr>)"

text \<open>Reading \<open>result.totalCost\<close>: a property read on the number \<open>0\<close> is \<open>undefined\<close>
  (\<open>None\<close>).\<close>

definition read_totalCost :: "CostResult \<Rightarrow> extnum option" where
  "read_totalCost r = (case r of PlainZero \<Rightarrow> None | Breakdown b \<Rightarrow> Some (totalCost b))"

section \<open>PortfolioState\<close>

record Position =
  shares :: real
  avgPrice :: real
  currentPrice :: real
  "value" :: real
  weight :: real

record 'd Snapshot =
  snap_date :: 'd
  snap_totalValue :: jsnum
  snap_cash :: jsnum
  snap_positions :: "(string \<times> Position) list"

record 'd Transaction =
  tx_date :: 'd
  tx_symbol :: string
  tx_shares :: real
  tx_price :: real
  tx_value :: real
  tx_costs :: CostResult
  cashAfter :: jsnum

text \<open>
  The \<open>positions\<close> object is an association list from symbol to position, one entry per
  key, in the key order of the object. Cash and total value can become \<open>NaN\<close>; the
  position fields are computed from finite arguments only. The field \<open>dividends\<close> is
  never read or written after construction and is left out.
\<close>

record 'd PortfolioState =
  cash :: jsnum
  totalValue :: jsnum
  positions :: "(string \<times> Position) list"
  symbols :: "string list"
  history :: "'d Snapshot list"
  transactions :: "'d Transaction list"

definition emptyPosition :: Position where
  "emptyPosition = \<lparr> shares = 0, avgPrice = 0, currentPrice = 0, value = 0, weight = 0 \<rparr>"

text \<open>The constructor. Assigning the same key twice keeps one entry, at the place of the
  first assignment. (An object lists keys that are array indices before the others;
  symbols are taken not to be such keys.)\<close>

definition new_PortfolioState :: "real \<Rightarrow> string list \<Rightarrow> 'd PortfolioState" where
  "new_PortfolioState initialCash syms =
     \<lparr> cash = Num initialCash, totalValue = Num initialCash,
       positions = map (\<lambda>symbol. (symbol, emptyPosition)) (rev (remdups (rev syms))),
       symbols = syms, history = [], transactions = [] \<rparr>"

text \<open>\<open>if (priceData[symbol])\<close>: a missing price and the price \<open>0\<close> are both falsy.\<close>

definition truthy_price :: "(string \<rightharpoonup> real) \<Rightarrow> string \<Rightarrow> real option" where
  "truthy_price priceData symbol =
     (case priceData symbol of None \<Rightarrow> None | Some pr \<Rightarrow> if pr = 0 then None else Some pr)"

text \<open>The first loop of \<open>updatePrices\<close>: reprice each position that has a price and
  add its value to the running total; a position without a price is left as it is and
  adds nothing.\<close>

fun reprice :: "(string \<rightharpoonup> real) \<Rightarrow> (string \<times> Position) list \<Rightarrow> jsnum
                 \<Rightarrow> (string \<times> Position) list \<times> jsnum" where
  "reprice priceData [] runningTotal = ([], runningTotal)"
| "reprice priceData ((symbol, p) # rest) runningTotal =
     (case truthy_price priceData symbol of
        Some pr \<Rightarrow>
          let p' = p\<lparr> currentPrice := pr, value := shares p * pr \<rparr>;
              (rest', runningTotal') = reprice priceData rest (runningTotal + Num (value p'))
          in ((symbol, p') # rest', runningTotal')
      | None \<Rightarrow>
          let (rest', runningTotal') = reprice priceData rest runningTotal
          in ((symbol, p) # rest', runningTotal'))"

text \<open>\<open>this.totalValue > 0 ? value / this.totalValue : 0\<close>\<close>

definition weight_of :: "jsnum \<Rightarrow> real \<Rightarrow> real" where
  "weight_of runningTotal v = (case runningTotal of Num t \<Rightarrow> if t > 0 then v / t else 0 | NaN \<Rightarrow> 0)"

definition updatePrices ::
  "'d PortfolioState \<Rightarrow> (string \<rightharpoonup> real) \<Rightarrow> 'd \<Rightarrow> 'd PortfolioState" where
  "updatePrices s priceData date =
     (let (ps, runningTotal) = reprice priceData (positions s) (cash s);
          ps' = map (\<lambda>(symbol, p). (symbol, p\<lparr> weight := weight_of runningTotal (value p) \<rparr>)) ps
      in s\<lparr> positions := ps', totalValue := runningTotal,
            history := history s @ [\<lparr> snap_date = date, snap_totalValue = runningTotal,
                                      snap_cash = cash s, snap_positions = ps' \<rparr>] \<rparr>)"

datatype error =
    SymbolNotInPortfolio string
  | NeedTwoPricePoints
  | PricesMustBePositive
  | InvalidReturnMethod
  | LibraryError
  | UnknownMethod string

text \<open>\<open>{executed: true, shares, value, costs}\<close> or \<open>{executed: false, reason}\<close>\<close>

datatype TradeResult = Executed real real CostResult | NotExecuted string

definition set_position ::
  "string \<Rightarrow> Position \<Rightarrow> (string \<times> Position) list \<Rightarrow> (string \<times> Position) list" where
  "set_position symbol p ps = map (\<lambda>(k, q). if k = symbol then (k, p) else (k, q)) ps"

text \<open>
  \<open>executeTrade\<close> calls itself with a reduced target when the trade cannot be paid for.
  Nothing in the source bounds the depth of that recursion, so the model takes the number
  of nested calls it may use as its first argument and returns \<open>None\<close> when they are used
  up. \<open>costs.totalCost\<close> is \<open>read_totalCost\<close>, converted to a number by the arithmetic
  around it. The trade is priced at the default volume, and such a cost is a finite
  number or \<open>NaN\<close> (lemma \<open>default_volume_totalCost\<close>), so \<open>narrow\<close> takes it to the
  type of the cash without loss. The source also computes \<open>reducedCosts\<close>, which it never
  uses. The division by \<open>currentPrice\<close> is modelled for a non-zero price.
\<close>

fun executeTrade ::
  "nat \<Rightarrow> 'd PortfolioState \<Rightarrow> string \<Rightarrow> real \<Rightarrow> real \<Rightarrow> TransactionCostModel \<Rightarrow> 'd
     \<Rightarrow> (error + TradeResult \<times> 'd PortfolioState) option" where
  "executeTrade 0 s symbol targetValue price m date = None"
| "executeTrade (Suc depth) s symbol targetValue price m date =
     (case map_of (positions s) symbol of
        None \<Rightarrow> Some (Inl (SymbolNotInPortfolio symbol))
      | Some pos \<Rightarrow>
          let currentValue = value pos;
              tradeValue = targetValue - currentValue;
              costs = calculateTradeCost m tradeValue None;
              costsTotal = narrow (ToNumber (read_totalCost costs))
          in
            if Num tradeValue + costsTotal > cash s then
              (case cash s - costsTotal of
                 Num availableCash \<Rightarrow>
                   if availableCash > 0 then
                     let reducedTradeValue = min tradeValue availableCash
                     in executeTrade depth s symbol (currentValue + reducedTradeValue)
                          price m date
                   else Some (Inr (NotExecuted ''insufficient_funds'', s))
               | NaN \<Rightarrow> Some (Inr (NotExecuted ''insufficient_funds'', s)))
            else
              let sharesToTrade = tradeValue / price;
                  newShares = shares pos + sharesToTrade;
                  newAvgPrice =
                    (if newShares > 0
                     then (shares pos * avgPrice pos + sharesToTrade * price) / newShares
                     else price);
                  pos' = pos\<lparr> avgPrice := newAvgPrice, shares := newShares,
                               value := newShares * price \<rparr>;
                  cash' = cash s - (Num tradeValue + costsTotal);
                  s' = s\<lparr> positions := set_position symbol pos' (positions s),
                           cash := cash',
                           transactions := transactions s @
                             [\<lparr> tx_date = date, tx_symbol = symbol, tx_shares = sharesToTrade,
                                tx_price = price, tx_value = tradeValue, tx_costs = costs,
                                cashAfter = cash' \<rparr>] \<rparr>
              in Some (Inr (Executed sharesToTrade tradeValue costs, s')))"

definition getCurrentWeights :: "'d PortfolioState \<Rightarrow> (string \<times> real) list" where
  "getCurrentWeights s = map (\<lambda>(symbol, p). (symbol, weight p)) (positions s)"

subsection \<open>Performance statistics\<close>

datatype ReturnMethod = Percentage | Log | Absolute | OtherMethod string

definition js_ln :: "jsnum \<Rightarrow> jsnum" where
  "js_ln a = (case a of Num x \<Rightarrow> if x > 0 then Num (ln x) else NaN | NaN \<Rightarrow> NaN)"

text \<open>The loop of \<open>calculateReturns\<close> over consecutive prices; the price check comes
  before the method is looked at, as in the source.\<close>

fun returns_loop :: "ReturnMethod \<Rightarrow> jsnum \<Rightarrow> jsnum list \<Rightarrow> error + jsnum list" where
  "returns_loop method prevPrice [] = Inr []"
| "returns_loop method prevPrice (curPrice # rest) =
     (if prevPrice \<le> Num 0 \<or> curPrice \<le> Num 0 then Inl PricesMustBePositive
      else
        (case (case method of
                 Percentage \<Rightarrow> Inr ((curPrice - prevPrice) / prevPrice)
               | Log \<Rightarrow> Inr (js_ln (curPrice / prevPrice))
               | Absolute \<Rightarrow> Inr (curPrice - prevPrice)
               | OtherMethod _ \<Rightarrow> Inl InvalidReturnMethod) of
           Inl e \<Rightarrow> Inl e
         | Inr returnValue \<Rightarrow>
             (case returns_loop method curPrice rest of
                Inl e \<Rightarrow> Inl e
              | Inr rs \<Rightarrow> Inr (returnValue # rs))))"

definition calculateReturns :: "jsnum list \<Rightarrow> ReturnMethod \<Rightarrow> error + jsnum list" where
  "calculateReturns prices method =
     (if length prices < 2 then Inl NeedTwoPricePoints
      else returns_loop method (hd prices) (tl prices))"

text \<open>\<open>returns.reduce\<close> building the cumulative products \<open>(1 + r)\<close>.\<close>

fun cumulative_from :: "jsnum \<Rightarrow> jsnum list \<Rightarrow> jsnum list" where
  "cumulative_from acc [] = []"
| "cumulative_from acc (r # rs) = (acc * (Num 1 + r)) # cumulative_from (acc * (Num 1 + r)) rs"

record ('d, 'r) PerformanceStats =
  ps_totalReturn :: jsnum
  ps_returns :: "jsnum list"
  ps_dates :: "'d list"
  ps_cumulativeReturns :: "jsnum list"
  ps_portfolioValues :: "jsnum list"
  ps_totalTransactionCosts :: extnum
  ps_transactionCostDrag :: extnum
  ps_numberOfTrades :: nat
  ps_riskMetrics :: 'r

text \<open>
  \<open>getPerformanceStats\<close> reads the state and builds a new object; the model returns the
  state next to the result to show that it is not written. \<open>null\<close> is \<open>None\<close>. The
  volatility, Sharpe and Sortino ratios, drawdown, value at risk and expected shortfall
  come from the statistics library and \<open>portfolio-math\<close>; they are the parameter
  \<open>riskMetrics\<close>, a function of the return series and of the cumulative returns that
  may throw.
\<close>

definition getPerformanceStats ::
  "(jsnum list \<Rightarrow> jsnum list \<Rightarrow> error + 'r) \<Rightarrow> 'd PortfolioState
     \<Rightarrow> (error + ('d, 'r) PerformanceStats option) \<times> 'd PortfolioState" where
  "getPerformanceStats riskMetrics s =
     (if length (history s) < 2 then (Inr None, s)
      else
        let vals = map snap_totalValue (history s) in
        (case calculateReturns vals Percentage of
           Inl e \<Rightarrow> (Inl e, s)
         | Inr rets \<Rightarrow>
             let dates = map snap_date (tl (history s));
                 cumulativeReturns = cumulative_from (Num 1) rets;
                 totalRet = last vals / hd vals - Num 1
             in (case riskMetrics rets cumulativeReturns of
                   Inl e \<Rightarrow> (Inl e, s)
                 | Inr risk \<Rightarrow>
                     let totalCosts = foldl (\<lambda>sum t. sum + ToNumber (read_totalCost (tx_costs t)))
                                        (Finite 0) (transactions s)
                     in (Inr (Some \<lparr> ps_totalReturn = totalRet, ps_returns = rets,
                                      ps_dates = dates,
                                      ps_cumulativeReturns = cumulativeReturns,
                                      ps_portfolioValues = vals,
                                      ps_totalTransactionCosts = totalCosts,
                                      ps_transactionCostDrag = totalCosts / widen (hd vals),
                                      ps_numberOfTrades = length (transactions s),
                                      ps_riskMetrics = risk \<rparr>), s))))"

section \<open>WalkForwardAnalysis: time windows\<close>

text \<open>The three fields of \<open>WalkForwardConfig\<close> that \<open>generateTimeWindows\<close> reads; they are
  numbers used as counts and indices.\<close>

record WalkForwardConfig =
  lookbackWindow :: int
  holdoutWindow :: int
  stepSize :: int

record WalkForwardConfigInput =
  in_lookbackWindow :: "int option"
  in_holdoutWindow :: "int option"
  in_stepSize :: "int option"

text \<open>The constructor: \<open>config.lookbackWindow || 252\<close> and so on.\<close>

definition new_WalkForwardConfig :: "WalkForwardConfigInput \<Rightarrow> WalkForwardConfig" where
  "new_WalkForwardConfig config =
     \<lparr> lookbackWindow = or_default_int (in_lookbackWindow config) 252,
       holdoutWindow = or_default_int (in_holdoutWindow config) 63,
       stepSize = or_default_int (in_stepSize config) 21 \<rparr>"

record 'd TimeRange =
  range_start :: "'d option"
  range_end :: "'d option"

record 'd TimeWindow =
  optimizationStart :: "'d option"
  optimization :: "'d TimeRange"
  test :: "'d TimeRange"
  testEnd :: "'d option"

text \<open>
  \<open>historicalData\<close> maps each symbol to its array of \<open>{date, price}\<close>.
  \<open>getAllTradingDates\<close> collects the dates in a \<open>Set\<close> and sorts them: the sorted list
  of the distinct dates. The type of dates is any linear order (the source sorts date
  strings).
\<close>

definition getAllTradingDates :: "(string \<times> ('d::linorder \<times> real) list) list \<Rightarrow> 'd list" where
  "getAllTradingDates historicalData =
     sort (remdups (concat (map (\<lambda>(symbol, symbolData). map fst symbolData) historicalData)))"

text \<open>The window pushed for a start index; an index outside \<open>allDates\<close> reads
  \<open>undefined\<close>.\<close>

definition window_at :: "WalkForwardConfig \<Rightarrow> 'd list \<Rightarrow> int \<Rightarrow> 'd TimeWindow" where
  "window_at cfg allDates startIndex =
     (let optStart = js_index allDates (startIndex - lookbackWindow cfg);
          optEnd = js_index allDates (startIndex - 1);
          testStart = js_index allDates startIndex;
          testEnd' = js_index allDates
                      (min (startIndex + holdoutWindow cfg - 1) (int (length allDates) - 1))
      in \<lparr> optimizationStart = optStart,
           optimization = \<lparr> range_start = optStart, range_end = optEnd \<rparr>,
           test = \<lparr> range_start = testStart, range_end = testEnd' \<rparr>,
           testEnd = testEnd' \<rparr>)"

text \<open>The \<open>while\<close> loop. Nothing makes it end when \<open>stepSize\<close> is not positive, so it
  is a partial function: \<open>None\<close> stands for a loop that does not end.\<close>

partial_function (option) windows_loop ::
  "WalkForwardConfig \<Rightarrow> 'd list \<Rightarrow> int \<Rightarrow> 'd TimeWindow list \<Rightarrow> 'd TimeWindow list option" where
  "windows_loop cfg allDates startIndex windows =
     (if startIndex + holdoutWindow cfg < int (length allDates)
      then windows_loop cfg allDates (startIndex + stepSize cfg)
             (windows @ [window_at cfg allDates startIndex])
      else Some windows)"

definition generateTimeWindows ::
  "WalkForwardConfig \<Rightarrow> (string \<times> ('d::linorder \<times> real) list) list \<Rightarrow> 'd TimeWindow list option" where
  "generateTimeWindows cfg historicalData =
     (let allDates = getAllTradingDates historicalData
      in if int (length allDates) < lookbackWindow cfg + holdoutWindow cfg then Some []
         else windows_loop cfg allDates (lookbackWindow cfg) [])"

section \<open>BlockBootstrapSampler\<close>

text \<open>
  The sampler holds the original series and the block length (\<open>numBlocks\<close> is computed
  by the constructor and never read). Every call of \<open>Math.random()\<close> reads the next
  element of a sequence \<open>random\<close> of draws; the functions take the number \<open>k\<close> of draws
  made so far and return the new count with their result.
\<close>

record BlockBootstrapSampler =
  originalReturns :: "real list"
  blockLength :: int

text \<open>One pass of the loop body: the block selected by the draw \<open>u\<close>.\<close>

definition draw_block :: "BlockBootstrapSampler \<Rightarrow> real \<Rightarrow> real list" where
  "draw_block S u =
     (let n = int (length (originalReturns S));
          maxStartIndex = max 0 (n - blockLength S);
          startIndex = \<lfloor>u * real_of_int (maxStartIndex + 1)\<rfloor>;
          endIndex = min (startIndex + blockLength S) n
      in js_slice (originalReturns S) startIndex endIndex)"

text \<open>The \<open>while\<close> loop of \<open>generateSample\<close>. It does not end when the blocks drawn
  are empty (an empty series, or a block length below 1), hence a partial function.\<close>

partial_function (option) sample_loop ::
  "BlockBootstrapSampler \<Rightarrow> (nat \<Rightarrow> real) \<Rightarrow> int \<Rightarrow> real list \<Rightarrow> nat \<Rightarrow> (real list \<times> nat) option" where
  "sample_loop S random targetLength sample k =
     (if int (length sample) < targetLength then
        let block = draw_block S (random k)
        in sample_loop S random targetLength (sample @ block) (Suc k)
      else Some (sample, k))"

text \<open>\<open>generateSample\<close>: the loop, then \<open>sample.slice(0, targetLength)\<close>.\<close>

definition generateSample ::
  "BlockBootstrapSampler \<Rightarrow> (nat \<Rightarrow> real) \<Rightarrow> int \<Rightarrow> nat \<Rightarrow> (real list \<times> nat) option" where
  "generateSample S random targetLength k =
     (case sample_loop S random targetLength [] k of
        None \<Rightarrow> None
      | Some (sample, k') \<Rightarrow> Some (js_slice sample 0 targetLength, k'))"

section \<open>Monte Carlo confidence engine\<close>

subsection \<open>The statistics library\<close>

text \<open>
  \<open>mean\<close>, \<open>standardDeviation\<close> and \<open>quantile\<close> come from the package
  \<open>simple-statistics\<close>, which is not part of the repository. They are modelled by what
  the package documents: each throws on an empty array, the standard deviation is the
  population one, and a quantile outside \<open>[0, 1]\<close> throws.
\<close>

definition ss_mean :: "real list \<Rightarrow> error + real" where
  "ss_mean xs = (if xs = [] then Inl LibraryError else Inr (sum_list xs / real (length xs)))"

definition ss_standardDeviation :: "real list \<Rightarrow> error + real" where
  "ss_standardDeviation xs =
     (if xs = [] then Inl LibraryError
      else let m = sum_list xs / real (length xs)
           in Inr (sqrt (sum_list (map (\<lambda>x. (x - m)\<^sup>2) xs) / real (length xs))))"

definition ss_quantile :: "real list \<Rightarrow> real \<Rightarrow> error + real" where
  "ss_quantile xs p =
     (let sorted = sort xs; n = length xs; idx = real n * p
      in if n = 0 then Inl LibraryError
         else if p < 0 \<or> 1 < p then Inl LibraryError
         else if p = 1 then Inr (sorted ! (n - 1))
         else if p = 0 then Inr (sorted ! 0)
         else if real_of_int \<lfloor>idx\<rfloor> \<noteq> idx then Inr (sorted ! (nat \<lceil>idx\<rceil> - 1))
         else if even n then Inr ((sorted ! (nat \<lfloor>idx\<rfloor> - 1) + sorted ! nat \<lfloor>idx\<rfloor>) / 2)
         else Inr (sorted ! nat \<lfloor>idx\<rfloor>))"

subsection \<open>Configuration, parameters, scenarios\<close>

datatype ReturnDistribution = Bootstrap | Normal | Historical | OtherDistribution string

record MonteCarloConfig =
  numSimulations :: int
  confidenceLevels :: "real list"
  blockBootstrapLength :: int
  returnDistribution :: ReturnDistribution
  robustnessThreshold :: real
  includePerturbations :: bool
  perturbationMagnitude :: real

record MonteCarloConfigInput =
  in_numSimulations :: "int option"
  in_confidenceLevels :: "real list option"
  in_blockBootstrapLength :: "int option"
  in_returnDistribution :: "ReturnDistribution option"
  in_robustnessThreshold :: "real option"
  in_includePerturbations :: "bool option"
  in_perturbationMagnitude :: "real option"

text \<open>The constructor. \<open>config.includePerturbations || true\<close> is \<open>true\<close> whatever the
  caller passes.\<close>

definition new_MonteCarloConfig :: "MonteCarloConfigInput \<Rightarrow> MonteCarloConfig" where
  "new_MonteCarloConfig config =
     \<lparr> numSimulations = or_default_int (in_numSimulations config) 10000,
       confidenceLevels = (case in_confidenceLevels config of
                             None \<Rightarrow> [90 / 100, 95 / 100, 99 / 100] | Some ls \<Rightarrow> ls),
       blockBootstrapLength = or_default_int (in_blockBootstrapLength config) 22,
       returnDistribution = (case in_returnDistribution config of
                               None \<Rightarrow> Bootstrap | Some d \<Rightarrow> d),
       robustnessThreshold = or_default (in_robustnessThreshold config) (1 / 2),
       includePerturbations = True,
       perturbationMagnitude = or_default (in_perturbationMagnitude config) (1 / 10) \<rparr>"

datatype ParamValue = PNumber real | POther string

type_synonym params = "(string \<times> ParamValue) list"

record SimulationScenario =
  sc_returns :: "real list"
  sc_totalReturn :: real
  sc_volatility :: real
  sc_sharpeRatio :: real
  sc_maxDrawdown :: real
  sc_var95 :: jsnum
  sc_parameters :: params
  sc_perturbations :: "(string \<times> real) list"

text \<open>\<open>new SimulationScenario()\<close>\<close>

definition new_SimulationScenario :: SimulationScenario where
  "new_SimulationScenario =
     \<lparr> sc_returns = [], sc_totalReturn = 0, sc_volatility = 0, sc_sharpeRatio = 0,
       sc_maxDrawdown = 0, sc_var95 = Num 0, sc_parameters = [], sc_perturbations = [] \<rparr>"

subsection \<open>ParameterPerturbation\<close>

text \<open>\<open>generatePerturbedParameters\<close>: one draw for each numeric parameter, in the
  order of the entries.\<close>

fun generatePerturbedParameters ::
  "real \<Rightarrow> (nat \<Rightarrow> real) \<Rightarrow> params \<Rightarrow> nat \<Rightarrow> params \<times> (string \<times> real) list \<times> nat" where
  "generatePerturbedParameters magnitude random [] k = ([], [], k)"
| "generatePerturbedParameters magnitude random ((param, v) # rest) k =
     (case v of
        PNumber x \<Rightarrow>
          let perturbation = (random k - 1 / 2) * 2 * magnitude;
              perturbedValue = x * (1 + perturbation);
              (ps, qs, k') = generatePerturbedParameters magnitude random rest (Suc k)
          in ((param, PNumber perturbedValue) # ps, (param, perturbation) # qs, k')
      | POther w \<Rightarrow>
          let (ps, qs, k') = generatePerturbedParameters magnitude random rest k
          in ((param, v) # ps, (param, 0) # qs, k'))"

subsection \<open>PortfolioStrategySimulator\<close>

text \<open>What the strategy function returns: an object whose \<open>returns\<close> field may be
  missing. A strategy that throws, or returns no object, is \<open>Inl\<close>.\<close>

record StrategyOutput =
  out_returns :: "real list option"

record PortfolioStrategySimulator =
  strategyFunction :: "real list \<Rightarrow> params \<Rightarrow> error + StrategyOutput"
  baseParameters :: params

definition calculateTotalReturn :: "real list \<Rightarrow> real" where
  "calculateTotalReturn rs = foldl (\<lambda>acc r. acc * (1 + r)) 1 rs - 1"

definition calculateSharpeRatio :: "real list \<Rightarrow> real \<Rightarrow> error + real" where
  "calculateSharpeRatio rs riskFreeRate =
     (let excessReturns = map (\<lambda>r. r - riskFreeRate / 252) rs
      in case ss_mean excessReturns of
           Inl e \<Rightarrow> Inl e
         | Inr meanExcess \<Rightarrow>
             (case ss_standardDeviation excessReturns of
                Inl e \<Rightarrow> Inl e
              | Inr stdExcess \<Rightarrow>
                  Inr (if stdExcess > 0
                       then (meanExcess * sqrt 252) / (stdExcess * sqrt 252) else 0)))"

text \<open>The loop of \<open>calculateMaxDrawdown\<close> on the triple (maxDrawdown, peak, current).\<close>

definition calculateMaxDrawdown :: "real list \<Rightarrow> real" where
  "calculateMaxDrawdown rs =
     fst (foldl (\<lambda>(maxDrawdown, peak, current) ret.
                   let current' = current * (1 + ret);
                       peak' = (if current' > peak then current' else peak);
                       drawdown = (peak' - current') / peak'
                   in (max maxDrawdown drawdown, peak', current'))
                (0, 1, 1) rs)"

definition calculateVaR :: "real list \<Rightarrow> real \<Rightarrow> jsnum" where
  "calculateVaR rs confidenceLevel =
     (let sortedReturns = sort rs;
          index = \<lfloor>(1 - confidenceLevel) * real (length sortedReturns)\<rfloor>
      in case js_index sortedReturns (max 0 index) of
           None \<Rightarrow> NaN | Some v \<Rightarrow> Num (- v))"

text \<open>The \<open>try\<close> block of \<open>simulateStrategy\<close>.\<close>

definition try_simulate ::
  "PortfolioStrategySimulator \<Rightarrow> real list \<Rightarrow> params \<Rightarrow> error + SimulationScenario" where
  "try_simulate sim rs ps =
     (case strategyFunction sim rs ps of
        Inl e \<Rightarrow> Inl e
      | Inr result \<Rightarrow>
          let scenarioReturns = (case out_returns result of None \<Rightarrow> rs | Some r \<Rightarrow> r)
          in case ss_standardDeviation scenarioReturns of
               Inl e \<Rightarrow> Inl e
             | Inr vol \<Rightarrow>
                 (case calculateSharpeRatio scenarioReturns (5 / 100) of
                    Inl e \<Rightarrow> Inl e
                  | Inr sharpe \<Rightarrow>
                      Inr (new_SimulationScenario
                            \<lparr> sc_returns := scenarioReturns,
                              sc_totalReturn := calculateTotalReturn scenarioReturns,
                              sc_volatility := vol,
                              sc_sharpeRatio := sharpe,
                              sc_maxDrawdown := calculateMaxDrawdown scenarioReturns,
                              sc_var95 := calculateVaR scenarioReturns (95 / 100),
                              sc_parameters := ps \<rparr>)))"

text \<open>\<open>simulateStrategy\<close>: a missing \<open>parameters\<close> argument means the base parameters;
  whatever is thrown inside is caught and answered with a scenario whose total return is
  the sentinel \<open>-1\<close>.\<close>

definition simulateStrategy ::
  "PortfolioStrategySimulator \<Rightarrow> real list \<Rightarrow> params option \<Rightarrow> SimulationScenario" where
  "simulateStrategy sim rs parameters =
     (let ps = (case parameters of None \<Rightarrow> baseParameters sim | Some p \<Rightarrow> p)
      in case try_simulate sim rs ps of
           Inr scenario \<Rightarrow> scenario
         | Inl e \<Rightarrow> new_SimulationScenario\<lparr> sc_totalReturn := - 1 \<rparr>)"

subsection \<open>MonteCarloConfidenceEngine\<close>

record MonteCarloConfidenceEngine =
  config :: MonteCarloConfig
  baselineReturns :: "real list"
  simulator :: "PortfolioStrategySimulator option"
  baselineMetrics :: "SimulationScenario option"

datatype mc_error = NotInitialized | Thrown error

definition new_MonteCarloConfidenceEngine :: "MonteCarloConfigInput \<Rightarrow> MonteCarloConfidenceEngine" where
  "new_MonteCarloConfidenceEngine cfg =
     \<lparr> config = new_MonteCarloConfig cfg, baselineReturns = [], simulator = None,
       baselineMetrics = None \<rparr>"

definition initialize ::
  "MonteCarloConfidenceEngine \<Rightarrow> real list \<Rightarrow> (real list \<Rightarrow> params \<Rightarrow> error + StrategyOutput)
     \<Rightarrow> params \<Rightarrow> MonteCarloConfidenceEngine" where
  "initialize E rs f ps =
     E\<lparr> baselineReturns := rs,
        simulator := Some \<lparr> strategyFunction = f, baseParameters = ps \<rparr>,
        baselineMetrics := None \<rparr>"

text \<open>\<open>generateNormalReturns\<close>: Box-Muller on two draws per observation. The logarithm
  of a draw that is exactly \<open>0\<close> is an infinity in the source and is outside this model.\<close>

fun normal_loop :: "real \<Rightarrow> real \<Rightarrow> (nat \<Rightarrow> real) \<Rightarrow> nat \<Rightarrow> nat \<Rightarrow> real list \<times> nat" where
  "normal_loop meanReturn stdReturn random 0 k = ([], k)"
| "normal_loop meanReturn stdReturn random (Suc n) k =
     (let u1 = random k; u2 = random (Suc k);
          z = sqrt (- 2 * ln u1) * cos (2 * pi * u2);
          (rest, k') = normal_loop meanReturn stdReturn random n (Suc (Suc k))
      in ((meanReturn + z * stdReturn) # rest, k'))"

definition generateNormalReturns ::
  "real list \<Rightarrow> (nat \<Rightarrow> real) \<Rightarrow> nat \<Rightarrow> error + real list \<times> nat" where
  "generateNormalReturns baseline random k =
     (case ss_mean baseline of
        Inl e \<Rightarrow> Inl e
      | Inr meanReturn \<Rightarrow>
          (case ss_standardDeviation baseline of
             Inl e \<Rightarrow> Inl e
           | Inr stdReturn \<Rightarrow>
               Inr (normal_loop meanReturn stdReturn random (length baseline) k)))"

text \<open>\<open>shuffleReturns\<close>: the loop runs \<open>i\<close> from \<open>length - 1\<close> down to \<open>1\<close>.\<close>

fun shuffle_loop :: "(nat \<Rightarrow> real) \<Rightarrow> nat \<Rightarrow> real list \<Rightarrow> nat \<Rightarrow> real list \<times> nat" where
  "shuffle_loop random 0 shuffled k = (shuffled, k)"
| "shuffle_loop random (Suc i) shuffled k =
     (let j = nat \<lfloor>random k * real (Suc i + 1)\<rfloor>
      in shuffle_loop random i (shuffled[Suc i := shuffled ! j, j := shuffled ! Suc i]) (Suc k))"

definition shuffleReturns :: "real list \<Rightarrow> (nat \<Rightarrow> real) \<Rightarrow> nat \<Rightarrow> real list \<times> nat" where
  "shuffleReturns baseline random k = shuffle_loop random (length baseline - 1) baseline k"

text \<open>
  One pass of the loop of \<open>runMonteCarloSimulations\<close>. The outer \<open>option\<close> is \<open>None\<close> when
  the bootstrap sampler does not return; the inner one is \<open>None\<close> when the pass throws and
  is skipped by the \<open>catch\<close>.
\<close>

definition run_trial ::
  "MonteCarloConfig \<Rightarrow> real list \<Rightarrow> PortfolioStrategySimulator \<Rightarrow> (nat \<Rightarrow> real) \<Rightarrow> nat
     \<Rightarrow> (SimulationScenario option \<times> nat) option" where
  "run_trial cfg baseline sim random k =
     (let bootstrapSampler = \<lparr> originalReturns = baseline,
                               blockLength = blockBootstrapLength cfg \<rparr>;
          generated =
            (case returnDistribution cfg of
               Normal \<Rightarrow> Some (generateNormalReturns baseline random k)
             | Historical \<Rightarrow> Some (Inr (shuffleReturns baseline random k))
             | _ \<Rightarrow> map_option Inr
                      (generateSample bootstrapSampler random (int (length baseline)) k))
      in case generated of
           None \<Rightarrow> None
         | Some (Inl e) \<Rightarrow> Some (None, k)
         | Some (Inr (simulatedReturns, k1)) \<Rightarrow>
             let (parameters, perturbations, k2) =
                   (if includePerturbations cfg \<and> random k1 < 1 / 2
                    then generatePerturbedParameters (perturbationMagnitude cfg) random
                           (baseParameters sim) (Suc k1)
                    else (baseParameters sim, [],
                          if includePerturbations cfg then Suc k1 else k1));
                 scenario = simulateStrategy sim simulatedReturns (Some parameters)
             in Some (Some (scenario\<lparr> sc_perturbations := perturbations \<rparr>), k2))"

fun simulations_loop ::
  "MonteCarloConfig \<Rightarrow> real list \<Rightarrow> PortfolioStrategySimulator \<Rightarrow> (nat \<Rightarrow> real) \<Rightarrow> nat \<Rightarrow> nat
     \<Rightarrow> (SimulationScenario list \<times> nat) option" where
  "simulations_loop cfg baseline sim random 0 k = Some ([], k)"
| "simulations_loop cfg baseline sim random (Suc n) k =
     (case run_trial cfg baseline sim random k of
        None \<Rightarrow> None
      | Some (pushed, k1) \<Rightarrow>
          (case simulations_loop cfg baseline sim random n k1 of
             None \<Rightarrow> None
           | Some (rest, k2) \<Rightarrow>
               Some ((case pushed of None \<Rightarrow> rest | Some scenario \<Rightarrow> scenario # rest), k2)))"

text \<open>\<open>runMonteCarloSimulations\<close>: \<open>numSimulations\<close> passes, then the failed scenarios are
  filtered out.\<close>

definition runMonteCarloSimulations ::
  "MonteCarloConfig \<Rightarrow> real list \<Rightarrow> PortfolioStrategySimulator \<Rightarrow> (nat \<Rightarrow> real) \<Rightarrow> nat
     \<Rightarrow> (SimulationScenario list \<times> nat) option" where
  "runMonteCarloSimulations cfg baseline sim random k =
     (case simulations_loop cfg baseline sim random (nat (numSimulations cfg)) k of
        None \<Rightarrow> None
      | Some (simulations, k') \<Rightarrow>
          Some (filter (\<lambda>s. sc_totalReturn s \<noteq> - 1) simulations, k'))"

subsection \<open>Confidence intervals and robustness\<close>

record ConfidenceInterval =
  ci_lower :: real
  ci_upper :: real
  ci_median :: real
  ci_mean :: real

fun interval_levels :: "real list \<Rightarrow> real list \<Rightarrow> error + (real \<times> ConfidenceInterval) list" where
  "interval_levels vals [] = Inr []"
| "interval_levels vals (level # levels) =
     (let lowerPercentile = (1 - level) / 2;
          upperPercentile = 1 - lowerPercentile
      in case ss_quantile vals lowerPercentile of Inl e \<Rightarrow> Inl e | Inr lo \<Rightarrow>
         (case ss_quantile vals upperPercentile of Inl e \<Rightarrow> Inl e | Inr up \<Rightarrow>
         (case ss_quantile vals (1 / 2) of Inl e \<Rightarrow> Inl e | Inr med \<Rightarrow>
         (case ss_mean vals of Inl e \<Rightarrow> Inl e | Inr mn \<Rightarrow>
         (case interval_levels vals levels of Inl e \<Rightarrow> Inl e | Inr rest \<Rightarrow>
            Inr ((level, \<lparr> ci_lower = lo, ci_upper = up, ci_median = med, ci_mean = mn \<rparr>)
                 # rest))))))"

text \<open>The values of one metric over the simulations, without the \<open>NaN\<close>s.\<close>

definition finite_values :: "jsnum list \<Rightarrow> real list" where
  "finite_values vs = concat (map (\<lambda>v. case v of Num x \<Rightarrow> [x] | NaN \<Rightarrow> []) vs)"

fun intervals_for ::
  "real list \<Rightarrow> (string \<times> real list) list
     \<Rightarrow> error + (string \<times> (real \<times> ConfidenceInterval) list) list" where
  "intervals_for levels [] = Inr []"
| "intervals_for levels ((metric, vals) # rest) =
     (if vals = [] then intervals_for levels rest
      else case interval_levels vals levels of Inl e \<Rightarrow> Inl e | Inr ivs \<Rightarrow>
           (case intervals_for levels rest of Inl e \<Rightarrow> Inl e | Inr others \<Rightarrow>
              Inr ((metric, ivs) # others)))"

definition calculateConfidenceIntervals ::
  "MonteCarloConfig \<Rightarrow> SimulationScenario list
     \<Rightarrow> error + (string \<times> (real \<times> ConfidenceInterval) list) list" where
  "calculateConfidenceIntervals cfg simulations =
     intervals_for (confidenceLevels cfg)
       [(''totalReturn'', map sc_totalReturn simulations),
        (''volatility'', map sc_volatility simulations),
        (''sharpeRatio'', map sc_sharpeRatio simulations),
        (''maxDrawdown'', map sc_maxDrawdown simulations),
        (''var95'', finite_values (map sc_var95 simulations))]"

record ReturnRobustness =
  percentileAboveThreshold :: real
  percentilePositive :: real
  worstCase :: real
  bestCase :: real
  downside95 :: real

record SharpeRobustness =
  sh_percentileAboveThreshold :: real
  sh_percentilePositive :: real
  sh_worstCase :: real
  sh_bestCase :: real

record ParameterSensitivity =
  perturbedMean :: real
  baseCaseMean :: real
  sensitivityRatio :: jsnum

record RobustnessMetrics =
  returnRobustness :: ReturnRobustness
  sharpeRobustness :: SharpeRobustness
  parameterSensitivity :: "ParameterSensitivity option"

text \<open>
  \<open>calculateRobustnessMetrics\<close>. On an empty list of simulations the call of \<open>quantile\<close>
  throws before anything is returned, so the ratios, minima and maxima are only ever
  taken over a non-empty list. \<open>this.baselineMetrics\<close> has been set by the caller.
\<close>

definition calculateRobustnessMetrics ::
  "MonteCarloConfig \<Rightarrow> SimulationScenario \<Rightarrow> SimulationScenario list \<Rightarrow> error + RobustnessMetrics" where
  "calculateRobustnessMetrics cfg baseline simulations =
     (let baselineReturn = sc_totalReturn baseline;
          baselineSharpe = sc_sharpeRatio baseline;
          rets = map sc_totalReturn simulations;
          sharpeRatios = map sc_sharpeRatio simulations
      in case ss_quantile rets (5 / 100) of
           Inl e \<Rightarrow> Inl e
         | Inr q \<Rightarrow>
             let rr = \<lparr> percentileAboveThreshold =
                          real (length (filter (\<lambda>r. r \<ge> baselineReturn * robustnessThreshold cfg) rets))
                            / real (length rets),
                        percentilePositive =
                          real (length (filter (\<lambda>r. r > 0) rets)) / real (length rets),
                        worstCase = Min (set rets), bestCase = Max (set rets),
                        downside95 = q \<rparr>;
                 sr = \<lparr> sh_percentileAboveThreshold =
                          real (length (filter (\<lambda>s. s \<ge> baselineSharpe * robustnessThreshold cfg)
                                          sharpeRatios)) / real (length sharpeRatios),
                        sh_percentilePositive =
                          real (length (filter (\<lambda>s. s > 0) sharpeRatios))
                            / real (length sharpeRatios),
                        sh_worstCase = Min (set sharpeRatios),
                        sh_bestCase = Max (set sharpeRatios) \<rparr>;
                 perturbedReturns = map sc_totalReturn
                                      (filter (\<lambda>s. sc_perturbations s \<noteq> []) simulations);
                 baseCaseReturns = map sc_totalReturn
                                      (filter (\<lambda>s. sc_perturbations s = []) simulations);
                 sens = (if perturbedReturns \<noteq> [] \<and> baseCaseReturns \<noteq> []
                         then let pm = sum_list perturbedReturns / real (length perturbedReturns);
                                  bm = sum_list baseCaseReturns / real (length baseCaseReturns)
                              in Some \<lparr> perturbedMean = pm, baseCaseMean = bm,
                                        sensitivityRatio = Num pm / Num bm \<rparr>
                         else None)
             in Inr \<lparr> returnRobustness = rr, sharpeRobustness = sr,
                      parameterSensitivity = sens \<rparr>)"

text \<open>\<open>calculateOverallRobustnessScore\<close>: \<open>x || 0\<close> on a number is the number, and
  \<open>reduce\<close> adds the three weighted scores to \<open>0\<close> from the left.\<close>

definition calculateOverallRobustnessScore :: "RobustnessMetrics \<Rightarrow> real" where
  "calculateOverallRobustnessScore metrics =
     (let returnRob = percentileAboveThreshold (returnRobustness metrics);
          sharpeRob = sh_percentileAboveThreshold (sharpeRobustness metrics);
          positiveReturnRate = percentilePositive (returnRobustness metrics);
          weights = [4 / 10, 4 / 10, 2 / 10];
          scores = [returnRob, sharpeRob, positiveReturnRate]
      in foldl (\<lambda>sum (w, score). sum + w * score) 0 (zip weights scores))"

record MonteCarloResult =
  simulations :: "SimulationScenario list"
  confidenceIntervals :: "(string \<times> (real \<times> ConfidenceInterval) list) list"
  robustnessMetrics :: RobustnessMetrics
  robustnessScore :: real
  isRobust :: bool

text \<open>
  \<open>runConfidenceAnalysis\<close>. The result is \<open>None\<close> when the sampler does not return.
  Otherwise it is the error thrown or the result object, with the engine (whose
  \<open>baselineMetrics\<close> is set) and the number of draws made. The distribution statistics
  and the scenario analysis are computed from the same simulations after the robustness
  metrics, which have thrown if there is no simulation; they do not enter the score and
  are left out.
\<close>

definition runConfidenceAnalysis ::
  "MonteCarloConfidenceEngine \<Rightarrow> (nat \<Rightarrow> real) \<Rightarrow> nat
     \<Rightarrow> ((mc_error + MonteCarloResult) \<times> MonteCarloConfidenceEngine \<times> nat) option" where
  "runConfidenceAnalysis E random k =
     (case simulator E of
        None \<Rightarrow> Some (Inl NotInitialized, E, k)
      | Some sim \<Rightarrow>
          let baseline = simulateStrategy sim (baselineReturns E) None;
              E' = E\<lparr> baselineMetrics := Some baseline \<rparr>
          in case runMonteCarloSimulations (config E) (baselineReturns E) sim random k of
               None \<Rightarrow> None
             | Some (sims, k') \<Rightarrow>
                 (case calculateConfidenceIntervals (config E) sims of
                    Inl e \<Rightarrow> Some (Inl (Thrown e), E', k')
                  | Inr intervals \<Rightarrow>
                      (case calculateRobustnessMetrics (config E) baseline sims of
                         Inl e \<Rightarrow> Some (Inl (Thrown e), E', k')
                       | Inr metrics \<Rightarrow>
                           let score = calculateOverallRobustnessScore metrics
                           in Some (Inr \<lparr> simulations = sims,
                                          confidenceIntervals = intervals,
                                          robustnessMetrics = metrics,
                                          robustnessScore = score,
                                          isRobust = (score \<ge> robustnessThreshold (config E)) \<rparr>,
                                    E', k'))))"

section \<open>PortfolioStrategyOptimizer\<close>

text \<open>
  A score is compared with \<open>bestScore\<close>, which starts at \<open>-Infinity\<close>, so scores are IEEE
  values with their infinities. \<open>a > b\<close> is false as soon as one side is \<open>NaN\<close>.
\<close>

datatype score = Score real | PlusInfinity | MinusInfinity | ScoreNaN

fun score_gt :: "score \<Rightarrow> score \<Rightarrow> bool" where
  "score_gt ScoreNaN b = False"
| "score_gt a ScoreNaN = False"
| "score_gt MinusInfinity b = False"
| "score_gt a PlusInfinity = False"
| "score_gt PlusInfinity b = True"
| "score_gt a MinusInfinity = True"
| "score_gt (Score x) (Score y) = (x > y)"

text \<open>The four shapes of the \<open>parameters\<close> object of a result.\<close>

datatype StrategyParameters =
    RiskParityParameters real real
  | MeanVarianceParameters jsnum
  | BlackLittermanParameters real real
  | EqualWeightMethod

text \<open>The fields that every result object has; the method-specific diagnostics
  (\<open>converged\<close>, \<open>iterations\<close>, \<open>expectedReturn\<close>, \<open>volatility\<close>, ...) are copies of
  library outputs and are left out.\<close>

record StrategyResult =
  sr_weights :: "real list"
  sr_parameters :: StrategyParameters
  sr_score :: score
  sr_fallback :: bool

record RiskParityCoreResult =
  rp_weights :: "real list"
  rp_converged :: bool
  rp_iterations :: real
  rp_riskParityScore :: jsnum

record BlackLittermanResult =
  bl_weights :: "real list option"
  bl_portfolioReturn :: jsnum
  bl_portfolioVolatility :: jsnum

record ParameterRanges =
  pr_maxIterations :: "real list option"
  pr_tolerance :: "real list option"
  pr_targetReturn :: "real list option"
  pr_tau :: "real list option"
  pr_riskAversion :: "real list option"

text \<open>
  The optimizer with the numerical routines it calls. They live in \<open>portfolio-math\<close> on
  top of a matrix library and are taken as parameters, each able to throw:
  \<^item> \<open>windowData\<close> is \<open>extractReturnsForWindow\<close> followed by \<open>calculateCovarianceMatrix\<close>;
  \<^item> \<open>riskParityCore\<close> is \<open>optimizeRiskParity(cov, null, maxIterations, tolerance)\<close>;
  \<^item> \<open>minVariance\<close> is \<open>optimizePortfolioMinVariance(expectedReturns, cov, target)\<close>;
  \<^item> \<open>portfolioMoments\<close> is the pair of \<open>reduce\<close> expressions that give the portfolio
    return and volatility of a weight vector;
  \<^item> \<open>blackLitterman\<close> is \<open>blackLittermanOptimization(w, cov, [], [], tau, riskAversion)\<close>.
\<close>

record ('w, 'c) PortfolioStrategyOptimizer =
  opt_symbols :: "string list"
  windowData :: "'w \<Rightarrow> error + real list list \<times> 'c"
  riskParityCore :: "'c \<Rightarrow> real \<Rightarrow> real \<Rightarrow> error + RiskParityCoreResult"
  minVariance :: "real list \<Rightarrow> 'c \<Rightarrow> jsnum \<Rightarrow> error + real list"
  portfolioMoments :: "real list \<Rightarrow> real list \<Rightarrow> 'c \<Rightarrow> jsnum \<times> jsnum"
  blackLitterman :: "real list \<Rightarrow> 'c \<Rightarrow> real \<Rightarrow> real \<Rightarrow> error + BlackLittermanResult"

definition getFallbackStrategy :: "('w, 'c) PortfolioStrategyOptimizer \<Rightarrow> StrategyResult" where
  "getFallbackStrategy opt =
     (let equalWeight = 1 / real (length (opt_symbols opt))
      in \<lparr> sr_weights = replicate (length (opt_symbols opt)) equalWeight,
           sr_parameters = EqualWeightMethod, sr_score = Score 0, sr_fallback = True \<rparr>)"

text \<open>\<open>bestScore\<close> is \<open>-Infinity\<close> until a result is kept, and that result's score after.\<close>

definition bestScore :: "StrategyResult option \<Rightarrow> score" where
  "bestScore best = (case best of None \<Rightarrow> MinusInfinity | Some b \<Rightarrow> sr_score b)"

text \<open>\<open>bestResult || this.getFallbackStrategy()\<close>\<close>

definition or_fallback ::
  "('w, 'c) PortfolioStrategyOptimizer \<Rightarrow> StrategyResult option \<Rightarrow> StrategyResult" where
  "or_fallback opt best = (case best of None \<Rightarrow> getFallbackStrategy opt | Some b \<Rightarrow> b)"

subsection \<open>Risk parity\<close>

text \<open>\<open>result.riskParityScore - (result.iterations / maxIterations) * 0.1\<close>; with
  \<open>maxIterations = 0\<close> the quotient of the iteration count is \<open>NaN\<close> or \<open>+Infinity\<close>.\<close>

definition rp_score :: "RiskParityCoreResult \<Rightarrow> real \<Rightarrow> score" where
  "rp_score r maxIterations =
     (case rp_riskParityScore r of
        NaN \<Rightarrow> ScoreNaN
      | Num q \<Rightarrow>
          if maxIterations = 0
          then (if rp_iterations r = 0 then ScoreNaN else MinusInfinity)
          else Score (q - (rp_iterations r / maxIterations) * (1 / 10)))"

text \<open>The body of the two nested loops: a cell that throws is skipped.\<close>

definition rp_cell ::
  "('w, 'c) PortfolioStrategyOptimizer \<Rightarrow> 'c \<Rightarrow> StrategyResult option \<Rightarrow> real \<times> real
     \<Rightarrow> StrategyResult option" where
  "rp_cell opt cov best cell =
     (case cell of (maxIterations, tolerance) \<Rightarrow>
        (case riskParityCore opt cov maxIterations tolerance of
           Inl e \<Rightarrow> best
         | Inr result \<Rightarrow>
             if rp_converged result then
               let sc = rp_score result maxIterations
               in if score_gt sc (bestScore best)
                  then Some \<lparr> sr_weights = rp_weights result,
                              sr_parameters = RiskParityParameters maxIterations tolerance,
                              sr_score = sc, sr_fallback = False \<rparr>
                  else best
             else best))"

definition rp_grid :: "ParameterRanges \<Rightarrow> (real \<times> real) list" where
  "rp_grid ranges =
     List.product
       (case pr_maxIterations ranges of None \<Rightarrow> [50, 100, 200] | Some xs \<Rightarrow> xs)
       (case pr_tolerance ranges of None \<Rightarrow> [1 / 1000000, 1 / 100000, 1 / 10000] | Some xs \<Rightarrow> xs)"

definition optimizeRiskParity ::
  "('w, 'c) PortfolioStrategyOptimizer \<Rightarrow> 'w \<Rightarrow> ParameterRanges \<Rightarrow> error + StrategyResult" where
  "optimizeRiskParity opt dataWindow ranges =
     (case windowData opt dataWindow of
        Inl e \<Rightarrow> Inl e
      | Inr (windowReturns, cov) \<Rightarrow>
          Inr (or_fallback opt (foldl (rp_cell opt cov) None (rp_grid ranges))))"

subsection \<open>Mean-variance\<close>

fun mean_each :: "real list list \<Rightarrow> error + real list" where
  "mean_each [] = Inr []"
| "mean_each (rs # rest) =
     (case ss_mean rs of
        Inl e \<Rightarrow> Inl e
      | Inr m \<Rightarrow> (case mean_each rest of Inl e \<Rightarrow> Inl e | Inr ms \<Rightarrow> Inr (m # ms)))"

text \<open>\<open>generateTargetReturnRange\<close>; on an empty array the minimum is \<open>Infinity\<close>, the
  maximum \<open>-Infinity\<close>, and all six targets are \<open>NaN\<close>.\<close>

definition generateTargetReturnRange :: "real list \<Rightarrow> jsnum list" where
  "generateTargetReturnRange expectedReturns =
     (if expectedReturns = [] then replicate 6 NaN
      else let minReturn = Min (set expectedReturns);
               maxReturn = Max (set expectedReturns);
               step = (maxReturn - minReturn) / 5
           in map (\<lambda>i. Num (minReturn + real i * step)) [0..<6])"

text \<open>\<open>portfolioVol > 0 ? (portfolioReturn - 0.05) / portfolioVol : 0\<close>\<close>

definition mv_sharpe :: "jsnum \<Rightarrow> jsnum \<Rightarrow> score" where
  "mv_sharpe portfolioReturn portfolioVol =
     (case portfolioVol of
        NaN \<Rightarrow> Score 0
      | Num v \<Rightarrow>
          if v > 0
          then (case portfolioReturn of NaN \<Rightarrow> ScoreNaN | Num r \<Rightarrow> Score ((r - 5 / 100) / v))
          else Score 0)"

definition mv_cell ::
  "('w, 'c) PortfolioStrategyOptimizer \<Rightarrow> real list \<Rightarrow> 'c \<Rightarrow> StrategyResult option \<Rightarrow> jsnum
     \<Rightarrow> StrategyResult option" where
  "mv_cell opt expectedReturns cov best targetReturn =
     (case minVariance opt expectedReturns cov targetReturn of
        Inl e \<Rightarrow> best
      | Inr ws \<Rightarrow>
          (case portfolioMoments opt ws expectedReturns cov of
             (portfolioReturn, portfolioVol) \<Rightarrow>
               let sharpe = mv_sharpe portfolioReturn portfolioVol
               in if score_gt sharpe (bestScore best)
                  then Some \<lparr> sr_weights = ws,
                              sr_parameters = MeanVarianceParameters targetReturn,
                              sr_score = sharpe, sr_fallback = False \<rparr>
                  else best))"

definition mv_grid :: "ParameterRanges \<Rightarrow> real list \<Rightarrow> jsnum list" where
  "mv_grid ranges expectedReturns =
     (case pr_targetReturn ranges of
        None \<Rightarrow> generateTargetReturnRange expectedReturns
      | Some xs \<Rightarrow> map Num xs)"

definition optimizeMeanVariance ::
  "('w, 'c) PortfolioStrategyOptimizer \<Rightarrow> 'w \<Rightarrow> ParameterRanges \<Rightarrow> error + StrategyResult" where
  "optimizeMeanVariance opt dataWindow ranges =
     (case windowData opt dataWindow of
        Inl e \<Rightarrow> Inl e
      | Inr (windowReturns, cov) \<Rightarrow>
          (case mean_each windowReturns of
             Inl e \<Rightarrow> Inl e
           | Inr expectedReturns \<Rightarrow>
               Inr (or_fallback opt
                      (foldl (mv_cell opt expectedReturns cov) None
                         (mv_grid ranges expectedReturns)))))"

subsection \<open>Black-Litterman\<close>

text \<open>\<open>blResult.portfolioReturn / blResult.portfolioVolatility\<close>; a volatility of \<open>0\<close>
  gives an infinity with the sign of the return, or \<open>NaN\<close> for \<open>0 / 0\<close>.\<close>

definition bl_score :: "BlackLittermanResult \<Rightarrow> score" where
  "bl_score r =
     (case (bl_portfolioReturn r, bl_portfolioVolatility r) of
        (Num x, Num v) \<Rightarrow>
          if v \<noteq> 0 then Score (x / v)
          else if x = 0 then ScoreNaN
          else if x > 0 then PlusInfinity else MinusInfinity
      | _ \<Rightarrow> ScoreNaN)"

definition bl_cell ::
  "('w, 'c) PortfolioStrategyOptimizer \<Rightarrow> 'c \<Rightarrow> StrategyResult option \<Rightarrow> real \<times> real
     \<Rightarrow> StrategyResult option" where
  "bl_cell opt cov best cell =
     (case cell of (tau, riskAversion) \<Rightarrow>
        (let n = length (opt_symbols opt);
             marketCapWeights = replicate n (1 / real n)
         in case blackLitterman opt marketCapWeights cov tau riskAversion of
              Inl e \<Rightarrow> best
            | Inr blResult \<Rightarrow>
                (case bl_weights blResult of
                   None \<Rightarrow> best
                 | Some ws \<Rightarrow>
                     let sc = bl_score blResult
                     in if score_gt sc (bestScore best)
                        then Some \<lparr> sr_weights = ws,
                                    sr_parameters = BlackLittermanParameters tau riskAversion,
                                    sr_score = sc, sr_fallback = False \<rparr>
                        else best)))"

definition bl_grid :: "ParameterRanges \<Rightarrow> (real \<times> real) list" where
  "bl_grid ranges =
     List.product
       (case pr_tau ranges of None \<Rightarrow> [1 / 100, 25 / 1000, 5 / 100, 1 / 10] | Some xs \<Rightarrow> xs)
       (case pr_riskAversion ranges of None \<Rightarrow> [1, 3, 5, 10] | Some xs \<Rightarrow> xs)"

definition optimizeBlackLitterman ::
  "('w, 'c) PortfolioStrategyOptimizer \<Rightarrow> 'w \<Rightarrow> ParameterRanges \<Rightarrow> error + StrategyResult" where
  "optimizeBlackLitterman opt dataWindow ranges =
     (case windowData opt dataWindow of
        Inl e \<Rightarrow> Inl e
      | Inr (windowReturns, cov) \<Rightarrow>
          Inr (or_fallback opt (foldl (bl_cell opt cov) None (bl_grid ranges))))"

subsection \<open>optimizeStrategy\<close>

text \<open>The \<open>switch\<close> inside \<open>try\<close>; an unknown method throws.\<close>

definition dispatch ::
  "('w, 'c) PortfolioStrategyOptimizer \<Rightarrow> string \<Rightarrow> 'w \<Rightarrow> ParameterRanges \<Rightarrow> error + StrategyResult" where
  "dispatch opt method dataWindow ranges =
     (if method = ''risk_parity'' then optimizeRiskParity opt dataWindow ranges
      else if method = ''mean_variance'' then optimizeMeanVariance opt dataWindow ranges
      else if method = ''black_litterman'' then optimizeBlackLitterman opt dataWindow ranges
      else Inl (UnknownMethod method))"

text \<open>\<open>optimizeStrategy\<close>: whatever is thrown inside is caught and answered with the
  fallback.\<close>

definition optimizeStrategy ::
  "('w, 'c) PortfolioStrategyOptimizer \<Rightarrow> string \<Rightarrow> 'w \<Rightarrow> ParameterRanges \<Rightarrow> error + StrategyResult" where
  "optimizeStrategy opt method dataWindow ranges =
     (case dispatch opt method dataWindow ranges of
        Inl e \<Rightarrow> Inr (getFallbackStrategy opt)
      | Inr result \<Rightarrow> Inr result)"

section \<open>Quantities and inputs used in the statements\<close>

text \<open>The sum of the position values, and the sum of the position weights.\<close>

definition holdings_value :: "'d PortfolioState \<Rightarrow> real" where
  "holdings_value s = sum_list (map (\<lambda>(symbol, p). value p) (positions s))"

definition weight_sum :: "'d PortfolioState \<Rightarrow> real" where
  "weight_sum s = sum_list (map (\<lambda>(symbol, p). weight p) (positions s))"

text \<open>\<open>new TransactionCostModel()\<close>\<close>

definition default_model :: TransactionCostModel where
  "default_model = new_TransactionCostModel emptyCostConfig"

text \<open>\<open>new TransactionCostModel({marketImpactExponent: 1})\<close>: the defaults with a linear
  impact law, so that costs are rational numbers.\<close>

definition exact_model :: TransactionCostModel where
  "exact_model = new_TransactionCostModel (emptyCostConfig\<lparr> cfg_marketImpactExponent := Some 1 \<rparr>)"


text \<open>The state after \<open>new PortfolioState(1000, ['A'])\<close>, \<open>updatePrices({A: 10}, 1)\<close> and
  \<open>executeTrade('A', 500, 10, exact_model, 1)\<close> (lemma \<open>bought_state_reachable\<close>).\<close>

definition bought_state :: "nat PortfolioState" where
  "bought_state =
     \<lparr> cash = Num (9991999 / 20000), totalValue = Num 1000,
       positions = [(''A'', \<lparr> shares = 50, avgPrice = 10, currentPrice = 10, value = 500,
                              weight = 0 \<rparr>)],
       symbols = [''A''],
       history = [\<lparr> snap_date = 1, snap_totalValue = Num 1000, snap_cash = Num 1000,
                    snap_positions = [(''A'', \<lparr> shares = 0, avgPrice = 0, currentPrice = 10,
                                               value = 0, weight = 0 \<rparr>)] \<rparr>],
       transactions = [\<lparr> tx_date = 1, tx_symbol = ''A'', tx_shares = 50, tx_price = 10,
                         tx_value = 500,
                         tx_costs = Breakdown \<lparr> fixedCostAmount = Finite 0,
                            variableCost = Finite (1 / 4), marketImpact = Finite (1 / 20000),
                            bidAskSpread = Finite (3 / 20), totalCost = Finite (8001 / 20000) \<rparr>,
                         cashAfter = Num (9991999 / 20000) \<rparr>] \<rparr>"

text \<open>The dates that occur in a history, under any symbol.\<close>

definition trading_dates :: "(string \<times> ('d \<times> real) list) list \<Rightarrow> 'd set" where
  "trading_dates historicalData =
     (\<Union>(symbol, symbolData) \<in> set historicalData. fst ` set symbolData)"

text \<open>The walk-forward configuration of the end-to-end scenario.\<close>

definition scenario2_config :: WalkForwardConfig where
  "scenario2_config =
     new_WalkForwardConfig \<lparr> in_lookbackWindow = Some 252, in_holdoutWindow = Some 63,
                             in_stepSize = Some 21 \<rparr>"

text \<open>What \<open>Math.random()\<close> guarantees of every draw: it lies in \<open>[0, 1)\<close>.\<close>

definition unit_interval :: "(nat \<Rightarrow> real) \<Rightarrow> bool" where
  "unit_interval random \<longleftrightarrow> (\<forall>k. 0 \<le> random k \<and> random k < 1)"

text \<open>A sequence of draws that are all \<open>0.5\<close>.\<close>

definition half_draws :: "nat \<Rightarrow> real" where
  "half_draws k = 1 / 2"

text \<open>A strategy function that returns the baseline series whatever it is given.\<close>

definition constant_strategy :: "real list \<Rightarrow> real list \<Rightarrow> params \<Rightarrow> error + StrategyOutput" where
  "constant_strategy baseline rs ps = Inr \<lparr> out_returns = Some baseline \<rparr>"

text \<open>\<open>new MonteCarloConfidenceEngine({numSimulations: 1000, robustnessThreshold: 0.5})\<close>
  initialized with a baseline, the constant strategy and base parameters.\<close>

definition scenario3_input :: MonteCarloConfigInput where
  "scenario3_input =
     \<lparr> in_numSimulations = Some 1000, in_confidenceLevels = None,
       in_blockBootstrapLength = None, in_returnDistribution = None,
       in_robustnessThreshold = Some (1 / 2), in_includePerturbations = None,
       in_perturbationMagnitude = None \<rparr>"

definition scenario3_engine :: "real list \<Rightarrow> params \<Rightarrow> MonteCarloConfidenceEngine" where
  "scenario3_engine baseline ps =
     initialize (new_MonteCarloConfidenceEngine scenario3_input) baseline
       (constant_strategy baseline) ps"

text \<open>The robustness score that a run reports, if it returns a result.\<close>

definition reported_score ::
  "((mc_error + MonteCarloResult) \<times> MonteCarloConfidenceEngine \<times> nat) option \<Rightarrow> real option" where
  "reported_score run =
     (case run of Some (Inr res, E, k) \<Rightarrow> Some (robustnessScore res) | _ \<Rightarrow> None)"

text \<open>\<open>1\<close> for a condition that holds, \<open>0\<close> otherwise.\<close>

definition indicator :: "bool \<Rightarrow> real" where
  "indicator b = (if b then 1 else 0)"

text \<open>
  A grid cell fails when its routine throws or its result is not kept while nothing has
  been kept yet: not converged, no weights, or a score that is not above \<open>-Infinity\<close>.
  Every combination fails when that holds for each cell of the method's grid; this is
  also the case when the window data cannot be computed or the method is unknown, since
  no cell is then evaluated.
\<close>

definition rp_cell_fails :: "('w, 'c) PortfolioStrategyOptimizer \<Rightarrow> 'c \<Rightarrow> real \<times> real \<Rightarrow> bool" where
  "rp_cell_fails opt cov cell =
     (case cell of (maxIterations, tolerance) \<Rightarrow>
        (case riskParityCore opt cov maxIterations tolerance of
           Inl e \<Rightarrow> True
         | Inr result \<Rightarrow>
             \<not> rp_converged result \<or> \<not> score_gt (rp_score result maxIterations) MinusInfinity))"

definition mv_cell_fails ::
  "('w, 'c) PortfolioStrategyOptimizer \<Rightarrow> real list \<Rightarrow> 'c \<Rightarrow> jsnum \<Rightarrow> bool" where
  "mv_cell_fails opt expectedReturns cov targetReturn =
     (case minVariance opt expectedReturns cov targetReturn of
        Inl e \<Rightarrow> True
      | Inr ws \<Rightarrow>
          (case portfolioMoments opt ws expectedReturns cov of
             (portfolioReturn, portfolioVol) \<Rightarrow>
               \<not> score_gt (mv_sharpe portfolioReturn portfolioVol) MinusInfinity))"

definition bl_cell_fails :: "('w, 'c) PortfolioStrategyOptimizer \<Rightarrow> 'c \<Rightarrow> real \<times> real \<Rightarrow> bool" where
  "bl_cell_fails opt cov cell =
     (case cell of (tau, riskAversion) \<Rightarrow>
        (case blackLitterman opt
                (replicate (length (opt_symbols opt)) (1 / real (length (opt_symbols opt))))
                cov tau riskAversion of
           Inl e \<Rightarrow> True
         | Inr blResult \<Rightarrow>
             bl_weights blResult = None \<or> \<not> score_gt (bl_score blResult) MinusInfinity))"

definition every_combination_fails ::
  "('w, 'c) PortfolioStrategyOptimizer \<Rightarrow> string \<Rightarrow> 'w \<Rightarrow> ParameterRanges \<Rightarrow> bool" where
  "every_combination_fails opt method dataWindow ranges =
     (case windowData opt dataWindow of
        Inl e \<Rightarrow> True
      | Inr (windowReturns, cov) \<Rightarrow>
          if method = ''risk_parity''
          then \<forall>cell \<in> set (rp_grid ranges). rp_cell_fails opt cov cell
          else if method = ''mean_variance''
          then (case mean_each windowReturns of
                  Inl e \<Rightarrow> True
                | Inr expectedReturns \<Rightarrow>
                    \<forall>targetReturn \<in> set (mv_grid ranges expectedReturns).
                      mv_cell_fails opt expectedReturns cov targetReturn)
          else if method = ''black_litterman''
          then \<forall>cell \<in> set (bl_grid ranges). bl_cell_fails opt cov cell
          else True)"

text \<open>An optimizer over four symbols whose numerical routines all throw, and the empty
  \<open>parameterRanges\<close> object.\<close>

definition throwing_optimizer :: "(unit, unit) PortfolioStrategyOptimizer" where
  "throwing_optimizer =
     \<lparr> opt_symbols = [''AAPL'', ''MSFT'', ''GOOG'', ''AMZN''],
       windowData = (\<lambda>w. Inr ([[1 / 100, - 1 / 100], [2 / 100, 0], [0, 0], [1 / 100, 1 / 100]], ())),
       riskParityCore = (\<lambda>cov maxIterations tolerance. Inl LibraryError),
       minVariance = (\<lambda>expectedReturns cov targetReturn. Inl LibraryError),
       portfolioMoments = (\<lambda>ws expectedReturns cov. (NaN, NaN)),
       blackLitterman = (\<lambda>ws cov tau riskAversion. Inl LibraryError) \<rparr>"

definition default_ranges :: ParameterRanges where
  "default_ranges = \<lparr> pr_maxIterations = None, pr_tolerance = None, pr_targetReturn = None,
                      pr_tau = None, pr_riskAversion = None \<rparr>"

section \<open>Properties of the cost model\<close>

subsection \<open>Arithmetic on numbers with infinities\<close>

lemma extnum_simps [simp]:
  "Finite x + Finite y = Finite (x + y)" "Finite x * Finite y = Finite (x * y)"
  "(Finite x < Finite y) = (x < y)" "(Finite x \<le> Finite y) = (x \<le> y)"
  "NotANumber + a = NotANumber" "a + NotANumber = NotANumber"
  "NotANumber * a = NotANumber" "a * NotANumber = NotANumber"
  "\<not> NotANumber < a" "\<not> a < NotANumber" "\<not> NotANumber \<le> a" "\<not> a \<le> NotANumber"
  by (cases a; simp add: plus_extnum_def times_extnum_def less_extnum_def less_eq_extnum_def)+

lemma extnum_infinity_simps [simp]:
  "PosInfinity + Finite x = PosInfinity" "Finite x + PosInfinity = PosInfinity"
  "NegInfinity + Finite x = NegInfinity" "Finite x + NegInfinity = NegInfinity"
  "PosInfinity \<le> PosInfinity" "NegInfinity \<le> NegInfinity"
  "Finite x * PosInfinity = signed_infinity x" "Finite x * NegInfinity = signed_infinity (- x)"
  by (simp_all add: plus_extnum_def times_extnum_def less_eq_extnum_def)

lemma extnum_divide_simps [simp]:
  "y \<noteq> 0 \<Longrightarrow> Finite x / Finite y = Finite (x / y)"
  "Finite x / Finite 0 = signed_infinity x"
  by (simp_all add: divide_extnum_def)

lemma widen_narrow:
  "a \<noteq> PosInfinity \<Longrightarrow> a \<noteq> NegInfinity \<Longrightarrow> widen (narrow a) = a"
  by (cases a) (simp_all add: widen_def narrow_def)

lemma narrow_widen: "narrow (widen a) = a"
  by (cases a) (simp_all add: widen_def narrow_def)

subsection \<open>The breakdown\<close>

lemma calculateTradeCost_small:
  "\<bar>tv\<bar> < minTradeSize m \<Longrightarrow> calculateTradeCost m tv adv = PlainZero"
  by (simp add: calculateTradeCost_def)

lemma calculateTradeCost_large:
  "\<not> \<bar>tv\<bar> < minTradeSize m \<Longrightarrow>
     \<exists>b. calculateTradeCost m tv adv = Breakdown b \<and>
       marketImpact b = Finite (\<bar>tv\<bar> * (marketImpactBps m / 10000))
           * Math_pow (Finite \<bar>tv\<bar> / Finite (case adv of None \<Rightarrow> 1000000 | Some v \<Rightarrow> v))
               (marketImpactExponent m) \<and>
       totalCost b = Finite (fixedCost m) + Finite (\<bar>tv\<bar> * (variableCostBps m / 10000))
         + marketImpact b + Finite (\<bar>tv\<bar> * (bidAskSpreadBps m / 10000))"
  by (simp add: calculateTradeCost_def Let_def)

text \<open>The power of a finite, positive volume ratio is finite, and so is the market impact;
  at a ratio of zero, which only a trade of value zero has, the impact is zero or, for a
  negative exponent, \<open>0 * Infinity = NaN\<close>.\<close>

lemma Math_pow_nonneg_base:
  "0 \<le> x \<Longrightarrow> (\<exists>p. Math_pow (Finite x) e = Finite p) \<or> (x = 0 \<and> e < 0 \<and> Math_pow (Finite x) e = PosInfinity)"
  by (auto simp: Math_pow_def)

lemma marketImpact_positive_volume:
  assumes vol: "case adv of None \<Rightarrow> True | Some v \<Rightarrow> 0 < v"
    and cost: "calculateTradeCost m tv adv = Breakdown b"
  shows "(\<exists>x. marketImpact b = Finite x) \<or>
         (tv = 0 \<and> marketImpactExponent m < 0 \<and> marketImpact b = NotANumber)"
proof -
  let ?adv = "case adv of None \<Rightarrow> 1000000 | Some v \<Rightarrow> v"
  have pos: "0 < ?adv" using vol by (cases adv) simp_all
  have large: "\<not> \<bar>tv\<bar> < minTradeSize m"
    using cost by (auto simp: calculateTradeCost_def split: if_splits)
  from calculateTradeCost_large [OF large, of adv] cost
  have mi: "marketImpact b = Finite (\<bar>tv\<bar> * (marketImpactBps m / 10000))
           * Math_pow (Finite (\<bar>tv\<bar> / ?adv)) (marketImpactExponent m)"
    using pos by simp
  have "0 \<le> \<bar>tv\<bar> / ?adv" using pos by simp
  from Math_pow_nonneg_base [OF this, of "marketImpactExponent m"]
  show ?thesis
  proof
    assume "\<exists>p. Math_pow (Finite (\<bar>tv\<bar> / ?adv)) (marketImpactExponent m) = Finite p"
    then obtain p where "Math_pow (Finite (\<bar>tv\<bar> / ?adv)) (marketImpactExponent m) = Finite p" ..
    then have "marketImpact b = Finite (\<bar>tv\<bar> * (marketImpactBps m / 10000) * p)"
      using mi by simp
    then show ?thesis by blast
  next
    assume z: "\<bar>tv\<bar> / ?adv = 0 \<and> marketImpactExponent m < 0 \<and>
        Math_pow (Finite (\<bar>tv\<bar> / ?adv)) (marketImpactExponent m) = PosInfinity"
    then have "tv = 0" using pos by simp
    then show ?thesis using mi z by (simp add: signed_infinity_def)
  qed
qed

text \<open>A trade priced at the default volume never has an infinite cost.\<close>

lemma default_volume_totalCost:
  assumes "calculateTradeCost m tv None = Breakdown b"
  shows "(\<exists>x. totalCost b = Finite x) \<or> totalCost b = NotANumber"
proof -
  have large: "\<not> \<bar>tv\<bar> < minTradeSize m"
    using assms by (auto simp: calculateTradeCost_def split: if_splits)
  from calculateTradeCost_large [OF large, of None] assms
  have tc: "totalCost b = Finite (fixedCost m) + Finite (\<bar>tv\<bar> * (variableCostBps m / 10000))
         + marketImpact b + Finite (\<bar>tv\<bar> * (bidAskSpreadBps m / 10000))"
    by simp
  from marketImpact_positive_volume [of None, OF _ assms]
  show ?thesis using tc by auto
qed

lemma narrow_default_volume:
  assumes "calculateTradeCost m tv None = Breakdown b"
  shows "widen (narrow (totalCost b)) = totalCost b"
  using default_volume_totalCost [OF assms] by (intro widen_narrow) auto





text \<open>
  Claim C9. A trade whose absolute value is below \<open>minTradeSize\<close> makes
  \<open>calculateTradeCost\<close> return the plain number \<open>0\<close>, on which reading \<open>totalCost\<close>
  gives \<open>undefined\<close>; every other trade gets the breakdown record, whose \<open>totalCost\<close>
  is the sum of its four components.
\<close>

theorem calculateTradeCost_result_shape:
  "(\<bar>tv\<bar> < minTradeSize m \<longrightarrow>
      calculateTradeCost m tv adv = PlainZero \<and>
      read_totalCost (calculateTradeCost m tv adv) = None) \<and>
   (\<not> \<bar>tv\<bar> < minTradeSize m \<longrightarrow>
      (\<exists>b. calculateTradeCost m tv adv = Breakdown b \<and>
           read_totalCost (calculateTradeCost m tv adv) = Some (totalCost b) \<and>
           totalCost b = fixedCostAmount b + variableCost b + marketImpact b + bidAskSpread b))"
  by (simp add: calculateTradeCost_def read_totalCost_def Let_def)

theorem calculateTradeCost_result_shape_witness:
  "\<bar>50::real\<bar> < minTradeSize (new_TransactionCostModel emptyCostConfig) \<and>
   calculateTradeCost (new_TransactionCostModel emptyCostConfig) 50 None = PlainZero \<and>
   read_totalCost (calculateTradeCost (new_TransactionCostModel emptyCostConfig) 50 None) = None \<and>
   \<not> \<bar>10000::real\<bar> < minTradeSize (new_TransactionCostModel emptyCostConfig) \<and>
   (\<exists>b. calculateTradeCost (new_TransactionCostModel emptyCostConfig) 10000 None = Breakdown b \<and>
        read_totalCost (calculateTradeCost (new_TransactionCostModel emptyCostConfig) 10000 None)
          = Some (totalCost b))"
proof -
  have small: "\<bar>50::real\<bar> < minTradeSize (new_TransactionCostModel emptyCostConfig)"
    by (simp add: new_TransactionCostModel_def emptyCostConfig_def or_default_def)
  have large: "\<not> \<bar>10000::real\<bar> < minTradeSize (new_TransactionCostModel emptyCostConfig)"
    by (simp add: new_TransactionCostModel_def emptyCostConfig_def or_default_def)
  show ?thesis
    using small large
      calculateTradeCost_result_shape [of 50 "new_TransactionCostModel emptyCostConfig" None]
      calculateTradeCost_result_shape [of 10000 "new_TransactionCostModel emptyCostConfig" None]
    by blast
qed

section \<open>Properties of the portfolio state\<close>

subsection \<open>Arithmetic on JavaScript numbers\<close>

lemma jsnum_simps [simp]:
  "Num x + Num y = Num (x + y)" "Num x - Num y = Num (x - y)" "Num x * Num y = Num (x * y)"
  "NaN + a = NaN" "a + NaN = NaN" "NaN - a = NaN" "a - NaN = NaN"
  "(Num x < Num y) = (x < y)" "(Num x \<le> Num y) = (x \<le> y)"
  "\<not> NaN < a" "\<not> a < NaN" "\<not> NaN \<le> a" "\<not> a \<le> NaN"
  by (simp_all add: plus_jsnum_def minus_jsnum_def times_jsnum_def less_jsnum_def less_eq_jsnum_def split: jsnum.splits)

subsection \<open>The cost models of the examples\<close>


lemma exact_model_simps:
  "fixedCost exact_model = 0" "variableCostBps exact_model = 5" "marketImpactBps exact_model = 2"
  "marketImpactExponent exact_model = 1" "bidAskSpreadBps exact_model = 3" "minTradeSize exact_model = 100"
  by (simp_all add: exact_model_def new_TransactionCostModel_def emptyCostConfig_def or_default_def)

lemma default_model_simps:
  "fixedCost default_model = 0" "variableCostBps default_model = 5" "marketImpactBps default_model = 2"
  "marketImpactExponent default_model = 1/2" "bidAskSpreadBps default_model = 3" "minTradeSize default_model = 100"
  by (simp_all add: default_model_def new_TransactionCostModel_def emptyCostConfig_def or_default_def)

lemmas eval_defs = updatePrices_def new_PortfolioState_def truthy_price_def emptyPosition_def
  weight_of_def calculateTradeCost_def Math_pow_def Let_def read_totalCost_def ToNumber_def
  narrow_def set_position_def

subsection \<open>Valuation\<close>

lemma bought_state_reachable:
  "executeTrade 1 (updatePrices (new_PortfolioState 1000 [''A'']) [''A'' \<mapsto> 10] 1)
       ''A'' 500 10 exact_model 1 =
     Some (Inr (Executed 50 500
       (Breakdown \<lparr> fixedCostAmount = Finite 0, variableCost = Finite (1 / 4),
                    marketImpact = Finite (1 / 20000), bidAskSpread = Finite (3 / 20),
                    totalCost = Finite (8001 / 20000) \<rparr>), bought_state))"
  by (simp add: eval_defs exact_model_simps bought_state_def)

text \<open>
  Claim C1. After \<open>updatePrices\<close> the total value should be the cash plus the market
  value of every held position, also when the price map omits a held position. The code
  adds a position's value to the total only inside \<open>if (priceData[symbol])\<close>: in the state
  reached by buying 50 shares of \<open>A\<close> at 10 out of 1000 in cash, a price update that has no
  price for \<open>A\<close> reports a total value equal to the cash alone, 499.59995, while cash plus
  position values is 999.59995.
\<close>

theorem updatePrices_omits_unpriced_position:
  "totalValue (updatePrices bought_state Map.empty 2) = Num (9991999 / 20000) \<and>
   cash (updatePrices bought_state Map.empty 2)
     + Num (holdings_value (updatePrices bought_state Map.empty 2)) = Num (19991999 / 20000)"
  by (simp add: eval_defs bought_state_def holdings_value_def)

lemma reprice_all_priced:
  assumes "\<forall>(symbol, p) \<in> set ps. truthy_price priceData symbol \<noteq> None"
  shows "snd (reprice priceData ps (Num a)) =
           Num (a + sum_list (map (\<lambda>(symbol, p). value p) (fst (reprice priceData ps (Num a)))))"
  using assms
proof (induction ps arbitrary: a)
  case Nil
  then show ?case by simp
next
  case (Cons x ps)
  obtain symbol p where x: "x = (symbol, p)" by (cases x)
  from Cons.prems obtain pr where pr: "truthy_price priceData symbol = Some pr"
    by (auto simp: x)
  have rest: "\<forall>(symbol, p) \<in> set ps. truthy_price priceData symbol \<noteq> None"
    using Cons.prems by simp
  show ?case
    using Cons.IH [OF rest, of "a + shares p * pr"]
    by (auto simp: x pr Let_def add.assoc split: prod.splits)
qed

lemma reprice_NaN: "snd (reprice priceData ps NaN) = NaN"
  by (induction ps) (auto simp: Let_def split: option.splits prod.splits)

lemma sum_weight_of:
  "0 < t \<Longrightarrow> sum_list (map (\<lambda>(symbol, p). weight_of (Num t) (value p)) ps)
     = sum_list (map (\<lambda>(symbol, p). value p) ps) / t"
  by (induction ps) (auto simp: weight_of_def add_divide_distrib)

lemma updatePrices_fields:
  "totalValue (updatePrices s pd d) = snd (reprice pd (positions s) (cash s))"
  "cash (updatePrices s pd d) = cash s"
  "positions (updatePrices s pd d) =
     map (\<lambda>(symbol, p). (symbol, p\<lparr> weight := weight_of (snd (reprice pd (positions s) (cash s))) (value p) \<rparr>))
       (fst (reprice pd (positions s) (cash s)))"
  by (simp_all add: updatePrices_def Let_def split: prod.splits)

lemma weight_sum_updatePrices:
  assumes "totalValue (updatePrices s pd d) = Num t" "0 < t"
  shows "weight_sum (updatePrices s pd d) = holdings_value (updatePrices s pd d) / t"
proof -
  have tv: "snd (reprice pd (positions s) (cash s)) = Num t"
    using assms(1) by (simp add: updatePrices_fields)
  show ?thesis
    using sum_weight_of [OF assms(2), of "fst (reprice pd (positions s) (cash s))"]
    by (simp add: weight_sum_def holdings_value_def updatePrices_fields tv comp_def case_prod_unfold)
qed

text \<open>
  Claim C3, as stated, fails: a portfolio that holds only cash has a positive total value
  and weights that sum to 0, since cash has no weight.
\<close>

theorem weights_do_not_sum_to_one:
  "Num 0 < totalValue (updatePrices (new_PortfolioState 100000 [''A'', ''B'']) [''A'' \<mapsto> 10, ''B'' \<mapsto> 20] (1::nat)) \<and>
   weight_sum (updatePrices (new_PortfolioState 100000 [''A'', ''B'']) [''A'' \<mapsto> 10, ''B'' \<mapsto> 20] (1::nat)) = 0"
  by (simp add: eval_defs weight_sum_def)

text \<open>
  Claim C3, amended. After an \<open>updatePrices\<close> call that prices every position and leaves a
  positive total value, the position weights sum to the invested fraction of the
  portfolio, \<open>1 - cash / totalValue\<close>; the sum is 1 exactly when no cash is held.
\<close>

theorem weight_sum_is_invested_fraction:
  assumes tv: "totalValue (updatePrices s priceData date) = Num t" and t: "0 < t"
    and priced: "\<forall>(symbol, p) \<in> set (positions s). truthy_price priceData symbol \<noteq> None"
    and c: "cash s = Num c"
  shows "weight_sum (updatePrices s priceData date) = 1 - c / t"
proof -
  have "Num t = Num (c + holdings_value (updatePrices s priceData date))"
    using reprice_all_priced [OF priced, of c] tv c
    by (simp add: updatePrices_fields holdings_value_def comp_def case_prod_unfold)
  then have "holdings_value (updatePrices s priceData date) = t - c" by simp
  then show ?thesis
    using weight_sum_updatePrices [OF tv t] t by (simp add: diff_divide_distrib)
qed

theorem weight_sum_is_invested_fraction_witness:
  "totalValue (updatePrices bought_state [''A'' \<mapsto> 12] 2) = Num (21991999 / 20000) \<and>
   (0::real) < 21991999 / 20000 \<and>
   map (\<lambda>(symbol, p). truthy_price [''A'' \<mapsto> 12] symbol) (positions bought_state) = [Some 12] \<and>
   cash bought_state = Num (9991999 / 20000) \<and>
   weight_sum (updatePrices bought_state [''A'' \<mapsto> 12] 2)
     = 1 - (9991999 / 20000) / (21991999 / 20000)"
proof -
  have tv: "totalValue (updatePrices bought_state [''A'' \<mapsto> 12] 2) = Num (21991999 / 20000)"
    by (simp add: eval_defs bought_state_def)
  have t: "(0::real) < 21991999 / 20000" by simp
  have priced: "\<forall>(symbol, p) \<in> set (positions bought_state).
                  truthy_price [''A'' \<mapsto> 12] symbol \<noteq> None"
    by (simp add: bought_state_def truthy_price_def)
  have c: "cash bought_state = Num (9991999 / 20000)"
    by (simp add: bought_state_def)
  have prices: "map (\<lambda>(symbol, p). truthy_price [''A'' \<mapsto> 12] symbol) (positions bought_state)
                  = [Some 12]"
    by (simp add: bought_state_def truthy_price_def)
  show ?thesis
    using tv t prices c weight_sum_is_invested_fraction [OF tv t priced c] by blast
qed

subsection \<open>Trading\<close>


text \<open>When the cash does not cover value plus cost and nothing is left of it after the
  cost, the answer is \<open>insufficient_funds\<close> and the state is the one that was given.\<close>

lemma executeTrade_insufficient:
  assumes pos: "map_of (positions s) symbol = Some pos"
    and c: "cash s = Num c"
    and cost: "calculateTradeCost m (targetValue - value pos) None = Breakdown b"
    and total: "totalCost b = Finite x"
    and over: "c < targetValue - value pos + x"
    and none: "c - x \<le> 0"
  shows "executeTrade (Suc depth) s symbol targetValue price m date =
           Some (Inr (NotExecuted ''insufficient_funds'', s))"
  using assms by (simp add: Let_def read_totalCost_def ToNumber_def narrow_def)

text \<open>When the cash does not cover value plus cost but something is left of it after the
  cost, the call repeats itself with what is left as the value of the trade.\<close>

lemma executeTrade_shrink:
  assumes pos: "map_of (positions s) symbol = Some pos"
    and c: "cash s = Num c"
    and cost: "calculateTradeCost m (targetValue - value pos) None = Breakdown b"
    and total: "totalCost b = Finite x"
    and over: "c < targetValue - value pos + x"
    and some: "0 < c - x"
  shows "executeTrade (Suc depth) s symbol targetValue price m date =
           executeTrade depth s symbol (value pos + (c - x)) price m date"
proof -
  have "min (targetValue - value pos) (c - x) = c - x"
    using over by simp
  then show ?thesis using assms by (simp add: Let_def read_totalCost_def ToNumber_def narrow_def)
qed

text \<open>A trade below the minimum size is carried out with the plain cost \<open>0\<close>, and the
  subtraction of its missing \<open>totalCost\<close> turns the cash into \<open>NaN\<close>.\<close>

lemma executeTrade_subminimum_NaN:
  "\<exists>s'. executeTrade 1 (new_PortfolioState 1000 [''A'']) ''A'' 50 10 default_model (1::nat) =
      Some (Inr (Executed 5 50 PlainZero, s')) \<and> cash s' = NaN"
  by (simp add: eval_defs default_model_simps)




subsection \<open>Performance statistics\<close>

text \<open>
  Claim C10. With fewer than two snapshots in the history, \<open>getPerformanceStats\<close> returns
  \<open>null\<close>: no error is raised and the state is the one it was given.
\<close>

theorem getPerformanceStats_short_history:
  "length (history s) < 2 \<Longrightarrow> getPerformanceStats riskMetrics s = (Inr None, s)"
  by (simp add: getPerformanceStats_def)

theorem getPerformanceStats_short_history_witness:
  "length (history (updatePrices (new_PortfolioState 1000 [''A'']) [''A'' \<mapsto> 10] (1::nat))) < 2 \<and>
   getPerformanceStats (\<lambda>rets cumulative. Inr ())
       (updatePrices (new_PortfolioState 1000 [''A'']) [''A'' \<mapsto> 10] (1::nat))
     = (Inr None, updatePrices (new_PortfolioState 1000 [''A'']) [''A'' \<mapsto> 10] 1)"
proof -
  have h: "length (history (updatePrices (new_PortfolioState 1000 [''A'']) [''A'' \<mapsto> 10] (1::nat))) < 2"
    by (simp add: eval_defs)
  show ?thesis
    using h getPerformanceStats_short_history [OF h, of "\<lambda>rets cumulative. Inr ()"] by blast
qed

section \<open>Properties of the walk-forward windows\<close>

text \<open>\<open>getAllTradingDates\<close> lists every date of the history once, in ascending order,
  however many symbols share it.\<close>

lemma getAllTradingDates_sorted_distinct:
  "getAllTradingDates h = sorted_list_of_set (trading_dates h)"
proof -
  have "set (concat (map (\<lambda>(symbol, symbolData). map fst symbolData) h)) = trading_dates h"
    by (auto simp: trading_dates_def)
  then show ?thesis
    by (simp add: getAllTradingDates_def sorted_list_of_set_sort_remdups [symmetric])
qed

lemma finite_trading_dates: "finite (trading_dates h)"
  by (auto simp: trading_dates_def)

lemma length_getAllTradingDates:
  "length (getAllTradingDates h) = card (trading_dates h)"
  by (simp add: getAllTradingDates_sorted_distinct)

text \<open>The run over a list of 400 dates, and over one of 399.\<close>

lemma generateTimeWindows_400:
  assumes "length (getAllTradingDates h) = 400"
  shows "\<exists>ws. generateTimeWindows scenario2_config h = Some ws \<and>
     length ws = 5 \<and>
     map (\<lambda>w. range_start (test w)) ws =
       map (\<lambda>i. Some (getAllTradingDates h ! i)) [252, 273, 294, 315, 336] \<and>
     map (\<lambda>w. range_end (test w)) ws =
       map (\<lambda>i. Some (getAllTradingDates h ! i)) [314, 335, 356, 377, 398] \<and>
     windows_loop scenario2_config (getAllTradingDates h) 357 ws = Some ws"
  using assms
  by (simp add: generateTimeWindows_def scenario2_config_def new_WalkForwardConfig_def
        or_default_int_def windows_loop.simps window_at_def js_index_def Let_def)

lemma generateTimeWindows_399:
  assumes "length (getAllTradingDates h) = 399"
  shows "\<exists>ws. generateTimeWindows scenario2_config h = Some ws \<and> length ws = 4"
  using assms
  by (simp add: generateTimeWindows_def scenario2_config_def new_WalkForwardConfig_def
        or_default_int_def windows_loop.simps window_at_def js_index_def Let_def)

text \<open>
  Claim C5. With \<open>lookbackWindow = 252\<close>, \<open>holdoutWindow = 63\<close> and \<open>stepSize = 21\<close> over a
  history with exactly 400 distinct trading dates, shared by any number of symbols,
  \<open>generateTimeWindows\<close> returns exactly \<open>floor((400 - 252 - 63) / 21) + 1 = 5\<close> windows.
  Their tests start at the dates of rank 252, 273, 294, 315 and 336 in the ascending
  order of the distinct dates and end 62 dates later; at the next start, rank 357, only
  42 dates remain after the test start, fewer than the 63 of the holdout window, and the
  loop stops.
\<close>

theorem generateTimeWindows_scenario2:
  assumes "card (trading_dates historicalData) = 400"
  shows "\<exists>ws. generateTimeWindows scenario2_config historicalData = Some ws \<and>
     length ws = 5 \<and> int (length ws) = (400 - 252 - 63) div 21 + 1 \<and>
     map (\<lambda>w. range_start (test w)) ws =
       map (\<lambda>i. Some (sorted_list_of_set (trading_dates historicalData) ! i))
         [252, 273, 294, 315, 336] \<and>
     map (\<lambda>w. range_end (test w)) ws =
       map (\<lambda>i. Some (sorted_list_of_set (trading_dates historicalData) ! i))
         [314, 335, 356, 377, 398] \<and>
     windows_loop scenario2_config (sorted_list_of_set (trading_dates historicalData)) 357 ws
       = Some ws"
proof -
  have "length (getAllTradingDates historicalData) = 400"
    using assms by (simp add: length_getAllTradingDates)
  from generateTimeWindows_400 [OF this]
  show ?thesis
    by (simp add: getAllTradingDates_sorted_distinct)
qed

theorem generateTimeWindows_scenario2_witness:
  "card (trading_dates [(''SPY'', map (\<lambda>i. (i, 100)) (rev [0..<400])),
                        (''AGG'', map (\<lambda>i. (i, 50)) [0..<400])]) = 400 \<and>
   (\<exists>ws. generateTimeWindows scenario2_config
            [(''SPY'', map (\<lambda>i. (i, 100)) (rev [0..<400])),
             (''AGG'', map (\<lambda>i. (i, 50)) [0..<400])] = Some ws \<and>
         length ws = 5 \<and>
         map (\<lambda>w. range_start (test w)) ws = [Some 252, Some 273, Some 294, Some 315, Some 336] \<and>
         map (\<lambda>w. range_end (test w)) ws = [Some 314, Some 335, Some 356, Some 377, Some 398])"
proof -
  let ?h = "[(''SPY'', map (\<lambda>i. (i, 100 :: real)) (rev [0..<400])),
             (''AGG'', map (\<lambda>i. (i, 50)) [0..<400])]"
  have dates: "trading_dates ?h = {0..<400}"
    by (simp add: trading_dates_def image_image)
  have h: "card (trading_dates ?h) = 400"
    by (simp add: dates)
  have nth: "sorted_list_of_set (trading_dates ?h) = [0..<400]"
    by (simp add: dates)
  show ?thesis
    using h generateTimeWindows_scenario2 [OF h]
    apply (simp add: nth)
    apply (elim exE conjE)
    apply (intro exI conjI)
        apply assumption+
    done
qed

text \<open>The count is the number of start indices \<open>252 + 21 * k\<close> below \<open>n - 63\<close>. With
  399 distinct dates it is 4, one less than \<open>floor((399 - 252 - 63) / 21) + 1\<close>: the
  closed form of the scenario counts the windows only when the step does not divide the
  number of spare dates.\<close>

lemma generateTimeWindows_399_dates:
  assumes "card (trading_dates historicalData) = 399"
  shows "\<exists>ws. generateTimeWindows scenario2_config historicalData = Some ws \<and> length ws = 4"
proof -
  have "length (getAllTradingDates historicalData) = 399"
    using assms by (simp add: length_getAllTradingDates)
  then show ?thesis by (rule generateTimeWindows_399)
qed

section \<open>Properties of the block bootstrap\<close>

subsection \<open>Slices\<close>

lemma js_slice_whole: "js_slice xs 0 (int (length xs)) = xs"
  by (simp add: js_slice_def)

lemma js_slice_empty: "js_slice [] 0 t = []"
  by (simp add: js_slice_def Let_def)

lemma js_slice_prefix: "0 \<le> t \<Longrightarrow> js_slice xs 0 t = take (nat t) xs"
  by (auto simp: js_slice_def Let_def min_def)

lemma js_slice_one:
  assumes "0 \<le> i" "i < int (length xs)"
  shows "js_slice xs i (i + 1) = [xs ! nat i]"
proof -
  have "take 1 (drop (nat i) xs) = [xs ! nat i]"
    using assms by (simp add: take_Suc_conv_app_nth hd_drop_conv_nth take_Suc)
  moreover have "nat (i + 1 - i) = 1" by simp
  ultimately show ?thesis using assms by (simp add: js_slice_def Let_def min_def)
qed

lemma js_slice_nonempty:
  assumes "0 \<le> a" "a < b" "b \<le> int (length xs)"
  shows "js_slice xs a b \<noteq> []"
proof -
  have "js_slice xs a b = take (nat (b - a)) (drop (nat a) xs)"
    using assms by (simp add: js_slice_def Let_def min_def)
  moreover have "0 < min (length xs - nat a) (nat (b - a))" using assms by simp
  ultimately show ?thesis by (metis length_drop length_greater_0_conv length_take min.commute)
qed

subsection \<open>Blocks at least as long as the series\<close>

lemma block_whole:
  assumes ne: "originalReturns S \<noteq> []" and big: "int (length (originalReturns S)) \<le> blockLength S"
    and u: "0 \<le> u" "u < 1"
  shows "draw_block S u
         = originalReturns S"
proof -
  have m: "max 0 (int (length (originalReturns S)) - blockLength S) = 0" using big by simp
  have f: "\<lfloor>u\<rfloor> = 0" using u by (simp add: floor_eq_iff)
  show ?thesis using big by (simp add: draw_block_def Let_def m f js_slice_whole min_def)
qed

lemma sample_loop_whole:
  assumes ne: "originalReturns S \<noteq> []" and big: "int (length (originalReturns S)) \<le> blockLength S"
    and u: "unit_interval random"
  shows "\<exists>j'. sample_loop S random targetLength (concat (replicate j (originalReturns S))) k
           = Some (concat (replicate j' (originalReturns S)), k + (j' - j)) \<and> j \<le> j' \<and>
           targetLength \<le> int (length (concat (replicate j' (originalReturns S))))"
proof (induction "nat (targetLength - int (length (concat (replicate j (originalReturns S)))))"
        arbitrary: j k rule: less_induct)
  case less
  let ?xs = "originalReturns S"
  show ?case
  proof (cases "int (length (concat (replicate j ?xs))) < targetLength")
    case False
    then show ?thesis
      by (subst sample_loop.simps) (auto intro: exI [of _ j])
  next
    case True
    have blk: "draw_block S (random k) = ?xs"
      using block_whole [OF ne big, of "random k"] u by (simp add: unit_interval_def)
    have app: "concat (replicate j ?xs) @ ?xs = concat (replicate (Suc j) ?xs)"
      by (induction j) simp_all
    have step: "sample_loop S random targetLength (concat (replicate j ?xs)) k
        = sample_loop S random targetLength (concat (replicate (Suc j) ?xs)) (Suc k)"
      using True by (subst sample_loop.simps) (simp add: Let_def blk app del: replicate_Suc)
    have len: "length ?xs > 0" using ne by simp
    have dec: "nat (targetLength - int (length (concat (replicate (Suc j) ?xs))))
               < nat (targetLength - int (length (concat (replicate j ?xs))))"
      using True len by (simp add: length_concat sum_list_replicate)
    from less [OF dec, of "Suc k"] obtain j' where
      r: "sample_loop S random targetLength (concat (replicate (Suc j) ?xs)) (Suc k)
           = Some (concat (replicate j' ?xs), Suc k + (j' - Suc j))"
      and le: "Suc j \<le> j'"
      and enough: "targetLength \<le> int (length (concat (replicate j' ?xs)))"
      by blast
    have "Suc k + (j' - Suc j) = k + (j' - j)" using le by simp
    then show ?thesis using step r le enough by (intro exI [of _ j']) simp
  qed
qed

lemma take_concat_replicate:
  assumes "j \<le> j'" "t \<le> length (concat (replicate j xs))"
  shows "take t (concat (replicate j' xs)) = take t (concat (replicate j xs))"
proof -
  have "replicate j' xs = replicate j xs @ replicate (j' - j) xs"
    using assms(1) by (simp add: replicate_add [symmetric])
  then show ?thesis using assms(2) by simp
qed

lemma generateSample_whole:
  assumes ne: "originalReturns S \<noteq> []" and big: "int (length (originalReturns S)) \<le> blockLength S"
    and u: "unit_interval random"
  shows "\<exists>k'. generateSample S random targetLength k
           = Some (take (nat targetLength) (concat (replicate (nat targetLength) (originalReturns S))), k')"
proof -
  let ?xs = "originalReturns S"
  from sample_loop_whole [OF ne big u, of targetLength 0 k] obtain j' where
    r: "sample_loop S random targetLength [] k = Some (concat (replicate j' ?xs), k + j')"
    and enough: "targetLength \<le> int (length (concat (replicate j' ?xs)))"
    by auto
  have len: "length ?xs \<ge> 1" using ne by (cases ?xs) simp_all
  have long: "nat targetLength \<le> length (concat (replicate (nat targetLength) ?xs))"
    using len by (simp add: length_concat sum_list_replicate)
  have eq: "take (nat targetLength) (concat (replicate j' ?xs))
          = take (nat targetLength) (concat (replicate (nat targetLength) ?xs))"
  proof (cases "j' \<le> nat targetLength")
    case True
    have "nat targetLength \<le> length (concat (replicate j' ?xs))" using enough by simp
    from take_concat_replicate [OF True this] show ?thesis by simp
  next
    case False
    then have "nat targetLength \<le> j'" by simp
    from take_concat_replicate [OF this long] show ?thesis .
  qed
  show ?thesis
  proof (cases "0 \<le> targetLength")
    case True
    then show ?thesis using r eq by (simp add: generateSample_def js_slice_prefix)
  next
    case False
    then have "sample_loop S random targetLength [] k = Some ([], k)"
      by (subst sample_loop.simps) simp
    then show ?thesis using False by (simp add: generateSample_def js_slice_empty)
  qed
qed

lemma take_whole_of_copies:
  assumes "xs \<noteq> []"
  shows "take (length xs) (concat (replicate (length xs) xs)) = xs"
proof -
  obtain m where m: "length xs = Suc m" using assms by (cases xs) auto
  show ?thesis by (simp add: m)
qed

subsection \<open>Blocks of length one\<close>

lemma floor_index_range:
  assumes "0 \<le> u" "u < 1" "0 < n"
  shows "0 \<le> \<lfloor>u * real n\<rfloor>" "\<lfloor>u * real n\<rfloor> < int n"
proof -
  show "0 \<le> \<lfloor>u * real n\<rfloor>" using assms by simp
  have "u * real n < real n" using assms by simp
  then show "\<lfloor>u * real n\<rfloor> < int n" by (simp add: floor_less_iff)
qed

lemma block_single:
  assumes ne: "originalReturns S \<noteq> []" and one: "blockLength S = 1"
    and u: "0 \<le> u" "u < 1"
  shows "draw_block S u
         = [originalReturns S ! nat \<lfloor>u * real (length (originalReturns S))\<rfloor>]"
proof -
  let ?n = "length (originalReturns S)"
  have n: "0 < ?n" using ne by simp
  have "max 0 (int ?n - 1) = int ?n - 1" using n by simp
  then have m: "real_of_int (max 0 (int ?n - 1)) + 1 = real ?n" by simp
  have r: "0 \<le> \<lfloor>u * real ?n\<rfloor>" "\<lfloor>u * real ?n\<rfloor> < int ?n"
    using floor_index_range [OF u n] by simp_all
  have "min (\<lfloor>u * real ?n\<rfloor> + 1) (int ?n) = \<lfloor>u * real ?n\<rfloor> + 1" using r by simp
  then show ?thesis using js_slice_one [OF r] by (simp add: draw_block_def Let_def m one)
qed

lemma sample_loop_single:
  assumes ne: "originalReturns S \<noteq> []" and one: "blockLength S = 1"
    and u: "unit_interval random"
    and j: "j \<le> nat targetLength"
  shows "sample_loop S random targetLength
           (map (\<lambda>i. originalReturns S ! nat \<lfloor>random (k + i) * real (length (originalReturns S))\<rfloor>) [0..<j])
           (k + j)
         = Some (map (\<lambda>i. originalReturns S ! nat \<lfloor>random (k + i) * real (length (originalReturns S))\<rfloor>)
                   [0..<nat targetLength], k + nat targetLength)"
  using j
proof (induction "nat targetLength - j" arbitrary: j)
  case 0
  then have "j = nat targetLength" by simp
  then show ?case by (subst sample_loop.simps) simp
next
  case (Suc d)
  then have lt: "int j < targetLength" by simp
  have blk: "draw_block S (random (k + j))
         = [originalReturns S ! nat \<lfloor>random (k + j) * real (length (originalReturns S))\<rfloor>]"
    using block_single [OF ne one, of "random (k + j)"] u by (simp add: unit_interval_def)
  have d: "d = nat targetLength - Suc j" using Suc.hyps(2) by simp
  have le: "Suc j \<le> nat targetLength" using lt by simp
  show ?case
    using Suc.hyps(1) [OF d le] lt
    by (subst sample_loop.simps) (simp add: Let_def blk)
qed

lemma generateSample_single:
  assumes ne: "originalReturns S \<noteq> []" and one: "blockLength S = 1"
    and u: "unit_interval random"
  shows "generateSample S random targetLength k
         = Some (map (\<lambda>i. originalReturns S ! nat \<lfloor>random (k + i) * real (length (originalReturns S))\<rfloor>)
                   [0..<nat targetLength], k + nat targetLength)"
proof -
  have "js_slice (map (\<lambda>i. originalReturns S ! nat \<lfloor>random (k + i) * real (length (originalReturns S))\<rfloor>)
                   [0..<nat targetLength]) 0 targetLength
        = map (\<lambda>i. originalReturns S ! nat \<lfloor>random (k + i) * real (length (originalReturns S))\<rfloor>)
                   [0..<nat targetLength]"
    by (cases "0 \<le> targetLength") (simp_all add: js_slice_prefix js_slice_empty)
  then show ?thesis
    using sample_loop_single [OF ne one u, of 0 targetLength k]
    by (simp add: generateSample_def)
qed

lemma unit_interval_half_draws: "unit_interval half_draws"
  by (simp add: unit_interval_def half_draws_def)

lemma draw_selects_interval:
  assumes n: "0 < n" and u: "0 \<le> u"
  shows "nat \<lfloor>u * real n\<rfloor> = j \<longleftrightarrow> real j / real n \<le> u \<and> u < (real j + 1) / real n"
proof -
  have f0: "0 \<le> \<lfloor>u * real n\<rfloor>" using u by simp
  have "nat \<lfloor>u * real n\<rfloor> = j \<longleftrightarrow> \<lfloor>u * real n\<rfloor> = int j" using f0 by linarith
  also have "\<dots> \<longleftrightarrow> real j \<le> u * real n \<and> u * real n < real j + 1"
    by (simp add: floor_eq_iff)
  also have "\<dots> \<longleftrightarrow> real j / real n \<le> u \<and> u < (real j + 1) / real n"
    using n by (simp add: pos_divide_le_eq pos_less_divide_eq)
  finally show ?thesis .
qed

text \<open>
  Claim C6. For a non-empty series and draws in \<open>[0, 1)\<close>:
  with a block length of at least the length of the series, \<open>generateSample\<close> returns,
  whatever the draws, the first \<open>targetLength\<close> elements of the series repeated end to
  end, and so the series itself when \<open>targetLength\<close> is its length;
  with a block length of 1 it returns \<open>targetLength\<close> single observations, the \<open>i\<close>-th
  chosen by the \<open>i\<close>-th draw \<open>u\<close> alone as the observation of index \<open>floor(u * n)\<close>, a
  choice under which each of the \<open>n\<close> observations is selected by an interval of draws
  of the same length \<open>1 / n\<close>. (With independent uniform draws, that is independent
  uniform resampling; the distribution of \<open>Math.random()\<close> itself is not modelled.)
\<close>

theorem generateSample_block_length_extremes:
  assumes ne: "originalReturns S \<noteq> []" and u: "unit_interval random"
  shows "(int (length (originalReturns S)) \<le> blockLength S \<longrightarrow>
            (\<exists>k'. generateSample S random targetLength k
                    = Some (take (nat targetLength)
                              (concat (replicate (nat targetLength) (originalReturns S))), k')) \<and>
            (\<exists>k'. generateSample S random (int (length (originalReturns S))) k
                    = Some (originalReturns S, k'))) \<and>
         (blockLength S = 1 \<longrightarrow>
            generateSample S random targetLength k
              = Some (map (\<lambda>i. originalReturns S !
                                 nat \<lfloor>random (k + i) * real (length (originalReturns S))\<rfloor>)
                        [0..<nat targetLength], k + nat targetLength) \<and>
            (\<forall>i j. nat \<lfloor>random i * real (length (originalReturns S))\<rfloor> = j \<longleftrightarrow>
                     real j / real (length (originalReturns S)) \<le> random i \<and>
                     random i < (real j + 1) / real (length (originalReturns S))))"
proof (intro conjI impI allI)
  assume big: "int (length (originalReturns S)) \<le> blockLength S"
  show "\<exists>k'. generateSample S random targetLength k
                = Some (take (nat targetLength)
                          (concat (replicate (nat targetLength) (originalReturns S))), k')"
    by (rule generateSample_whole [OF ne big u])
  from generateSample_whole [OF ne big u, of "int (length (originalReturns S))" k]
  show "\<exists>k'. generateSample S random (int (length (originalReturns S))) k
                = Some (originalReturns S, k')"
    by (simp add: take_whole_of_copies [OF ne])
next
  assume one: "blockLength S = 1"
  show "generateSample S random targetLength k
              = Some (map (\<lambda>i. originalReturns S !
                                 nat \<lfloor>random (k + i) * real (length (originalReturns S))\<rfloor>)
                        [0..<nat targetLength], k + nat targetLength)"
    by (rule generateSample_single [OF ne one u])
next
  fix i j
  assume "blockLength S = 1"
  have n: "0 < length (originalReturns S)" using ne by simp
  have "0 \<le> random i" using u by (simp add: unit_interval_def)
  from draw_selects_interval [OF n this]
  show "nat \<lfloor>random i * real (length (originalReturns S))\<rfloor> = j \<longleftrightarrow>
          real j / real (length (originalReturns S)) \<le> random i \<and>
          random i < (real j + 1) / real (length (originalReturns S))" .
qed

theorem generateSample_block_length_extremes_witness:
  "unit_interval half_draws \<and>
   (\<exists>k'. generateSample \<lparr> originalReturns = [1 / 100, - 2 / 100, 3 / 100], blockLength = 22 \<rparr>
            half_draws 3 0 = Some ([1 / 100, - 2 / 100, 3 / 100], k')) \<and>
   generateSample \<lparr> originalReturns = [1 / 100, - 2 / 100, 3 / 100], blockLength = 1 \<rparr>
       half_draws 2 0 = Some ([- 2 / 100, - 2 / 100], 2)"
proof -
  let ?S = "\<lparr> originalReturns = [1 / 100, - 2 / 100, 3 / 100], blockLength = 22 \<rparr>"
  let ?T = "\<lparr> originalReturns = [1 / 100, - 2 / 100, 3 / 100], blockLength = 1 \<rparr>"
  have ne: "originalReturns ?S \<noteq> []" "originalReturns ?T \<noteq> []" by simp_all
  have u: "unit_interval half_draws" by (rule unit_interval_half_draws)
  have a: "\<exists>k'. generateSample ?S half_draws 3 0 = Some ([1 / 100, - 2 / 100, 3 / 100], k')"
    using generateSample_block_length_extremes [OF ne(1) u, of 3 0] by simp
  have "map (\<lambda>i. originalReturns ?T ! nat \<lfloor>half_draws (0 + i) * real (length (originalReturns ?T))\<rfloor>)
          [0..<nat 2] = [- 2 / 100, - 2 / 100]"
    by (simp add: half_draws_def numeral_2_eq_2)
  then have b: "generateSample ?T half_draws 2 0 = Some ([- 2 / 100, - 2 / 100], 2)"
    using generateSample_block_length_extremes [OF ne(2) u, of 2 0] by simp
  show ?thesis using u a b by blast
qed

section \<open>Properties of the Monte Carlo engine\<close>

subsection \<open>The sampler returns\<close>

lemma draw_block_nonempty:
  assumes ne: "originalReturns S \<noteq> []" and bl: "1 \<le> blockLength S" and u: "0 \<le> u" "u < 1"
  shows "draw_block S u \<noteq> []"
proof -
  let ?n = "int (length (originalReturns S))"
  let ?m = "max 0 (?n - blockLength S)"
  let ?s = "\<lfloor>u * real_of_int (?m + 1)\<rfloor>"
  have n: "0 < ?n" using ne by simp
  have m0: "0 \<le> ?m" by simp
  have s0: "0 \<le> ?s" using u m0 by (simp add: zero_le_mult_iff)
  have "0 < real_of_int (?m + 1)" using m0 by linarith
  then have "u * real_of_int (?m + 1) < 1 * real_of_int (?m + 1)"
    using u by (intro mult_strict_right_mono)
  then have "u * real_of_int (?m + 1) < real_of_int (?m + 1)" by simp
  then have s1: "?s < ?m + 1" by (simp only: floor_less_iff)
  have mn: "?m < ?n" using bl n by simp
  have sn: "?s < ?n" using s1 mn by linarith
  have e: "?s < min (?s + blockLength S) ?n" using bl sn by simp
  have "js_slice (originalReturns S) ?s (min (?s + blockLength S) ?n) \<noteq> []"
    by (rule js_slice_nonempty [OF s0 e]) simp
  then show ?thesis unfolding draw_block_def Let_def .
qed

lemma sample_loop_returns:
  assumes ne: "originalReturns S \<noteq> []" and bl: "1 \<le> blockLength S" and u: "unit_interval random"
  shows "\<exists>r. sample_loop S random targetLength sample k = Some r"
proof (induction "nat (targetLength - int (length sample))" arbitrary: sample k rule: less_induct)
  case less
  show ?case
  proof (cases "int (length sample) < targetLength")
    case False
    then show ?thesis by (subst sample_loop.simps) simp
  next
    case True
    have "draw_block S (random k) \<noteq> []"
      using draw_block_nonempty [OF ne bl, of "random k"] u by (simp add: unit_interval_def)
    then have "length (draw_block S (random k)) > 0" by simp
    then have dec: "nat (targetLength - int (length (sample @ draw_block S (random k))))
               < nat (targetLength - int (length sample))"
      using True by simp
    from less [OF dec, of "Suc k"] show ?thesis
      using True by (subst sample_loop.simps) (simp add: Let_def)
  qed
qed

lemma generateSample_returns:
  assumes bl: "1 \<le> blockLength S" and u: "unit_interval random"
    and t: "targetLength = int (length (originalReturns S))"
  shows "\<exists>r. generateSample S random targetLength k = Some r"
proof (cases "originalReturns S = []")
  case True
  then have "sample_loop S random targetLength [] k = Some ([], k)"
    using t by (subst sample_loop.simps) simp
  then show ?thesis by (simp add: generateSample_def)
next
  case False
  from sample_loop_returns [OF False bl u, of targetLength "[]" k]
  show ?thesis by (auto simp: generateSample_def)
qed

subsection \<open>A strategy that ignores its input\<close>

lemma simulateStrategy_constant:
  assumes "strategyFunction sim = constant_strategy baseline"
  shows "sc_totalReturn (simulateStrategy sim rs p) = sc_totalReturn (simulateStrategy sim baseline None)"
    and "sc_sharpeRatio (simulateStrategy sim rs p) = sc_sharpeRatio (simulateStrategy sim baseline None)"
  using assms
  by (simp_all add: simulateStrategy_def try_simulate_def constant_strategy_def Let_def
        new_SimulationScenario_def split: sum.splits)

lemma run_trial_constant:
  assumes f: "strategyFunction sim = constant_strategy baseline"
    and d: "returnDistribution cfg = Bootstrap" and bl: "1 \<le> blockBootstrapLength cfg"
    and u: "unit_interval random"
  shows "\<exists>sc k'. run_trial cfg baseline sim random k = Some (Some sc, k') \<and>
           sc_totalReturn sc = sc_totalReturn (simulateStrategy sim baseline None) \<and>
           sc_sharpeRatio sc = sc_sharpeRatio (simulateStrategy sim baseline None)"
proof -
  let ?S = "\<lparr> originalReturns = baseline, blockLength = blockBootstrapLength cfg \<rparr>"
  obtain rs k1 where g: "generateSample ?S random (int (length baseline)) k = Some (rs, k1)"
    using generateSample_returns [of ?S random "int (length baseline)" k] bl u by auto
  show ?thesis
    using simulateStrategy_constant [OF f]
    by (simp add: run_trial_def d g Let_def split: prod.splits)
qed

lemma simulations_loop_constant:
  assumes f: "strategyFunction sim = constant_strategy baseline"
    and d: "returnDistribution cfg = Bootstrap" and bl: "1 \<le> blockBootstrapLength cfg"
    and u: "unit_interval random"
  shows "\<exists>sims k'. simulations_loop cfg baseline sim random n k = Some (sims, k') \<and>
           length sims = n \<and>
           (\<forall>s \<in> set sims. sc_totalReturn s = sc_totalReturn (simulateStrategy sim baseline None) \<and>
                            sc_sharpeRatio s = sc_sharpeRatio (simulateStrategy sim baseline None))"
proof (induction n arbitrary: k)
  case 0
  then show ?case by simp
next
  case (Suc n)
  from run_trial_constant [OF f d bl u, of k] obtain sc k1 where
    t: "run_trial cfg baseline sim random k = Some (Some sc, k1)"
    and b: "sc_totalReturn sc = sc_totalReturn (simulateStrategy sim baseline None)"
           "sc_sharpeRatio sc = sc_sharpeRatio (simulateStrategy sim baseline None)"
    by blast
  from Suc [of k1] obtain sims k2 where
    l: "simulations_loop cfg baseline sim random n k1 = Some (sims, k2)"
    and n: "length sims = n"
    and a: "\<forall>s \<in> set sims. sc_totalReturn s = sc_totalReturn (simulateStrategy sim baseline None) \<and>
                            sc_sharpeRatio s = sc_sharpeRatio (simulateStrategy sim baseline None)"
    by blast
  show ?case using t l n a b by simp
qed

lemma filter_map_constant:
  assumes "\<forall>x \<in> set xs. f x = c"
  shows "length (filter (P \<circ> f) xs) = (if P c then length xs else 0)"
  using assms by (induction xs) auto

lemma ss_quantile_not_thrown:
  "xs \<noteq> [] \<Longrightarrow> 0 \<le> p \<Longrightarrow> p \<le> 1 \<Longrightarrow> \<not> isl (ss_quantile xs p)"
  by (simp add: ss_quantile_def Let_def)

lemma ss_quantile_returns:
  assumes "xs \<noteq> []" "0 \<le> p" "p \<le> 1"
  shows "\<exists>v. ss_quantile xs p = Inr v"
  using ss_quantile_not_thrown [OF assms] by (cases "ss_quantile xs p") simp_all

lemma calculateRobustnessMetrics_constant:
  assumes ne: "sims \<noteq> []"
    and a: "\<forall>s \<in> set sims. sc_totalReturn s = B \<and> sc_sharpeRatio s = Sh"
    and base: "sc_totalReturn base = B" "sc_sharpeRatio base = Sh"
  shows "\<exists>m. calculateRobustnessMetrics cfg base sims = Inr m \<and>
           percentileAboveThreshold (returnRobustness m) = indicator (B \<ge> B * robustnessThreshold cfg) \<and>
           sh_percentileAboveThreshold (sharpeRobustness m) = indicator (Sh \<ge> Sh * robustnessThreshold cfg) \<and>
           percentilePositive (returnRobustness m) = indicator (B > 0)"
proof -
  have "map sc_totalReturn sims \<noteq> []" using ne by simp
  from ss_quantile_returns [OF this, of "1 / 20"] obtain q where
    q: "ss_quantile (map sc_totalReturn sims) (1 / 20) = Inr q" by auto
  have n: "real (length sims) \<noteq> 0" using ne by simp
  have r: "\<forall>s \<in> set sims. sc_totalReturn s = B" and s: "\<forall>s \<in> set sims. sc_sharpeRatio s = Sh"
    using a by auto
  show ?thesis
    using n
    by (simp add: calculateRobustnessMetrics_def Let_def q base indicator_def
          filter_map_constant [OF r] filter_map_constant [OF s])
qed

lemma score_of_metrics:
  "calculateOverallRobustnessScore m =
     4 / 10 * percentileAboveThreshold (returnRobustness m)
     + 4 / 10 * sh_percentileAboveThreshold (sharpeRobustness m)
     + 2 / 10 * percentilePositive (returnRobustness m)"
  by (simp add: calculateOverallRobustnessScore_def Let_def)

lemma interval_levels_default:
  assumes "vals \<noteq> []"
  shows "\<exists>ivs. interval_levels vals [90 / 100, 95 / 100, 99 / 100] = Inr ivs"
proof -
  have q: "\<And>p. 0 \<le> p \<Longrightarrow> p \<le> 1 \<Longrightarrow> \<exists>v. ss_quantile vals p = Inr v"
    using ss_quantile_returns [OF assms] by blast
  obtain a1 where a1: "ss_quantile vals (1 / 20) = Inr a1" using q [of "1 / 20"] by auto
  obtain a2 where a2: "ss_quantile vals (19 / 20) = Inr a2" using q [of "19 / 20"] by auto
  obtain b1 where b1: "ss_quantile vals (1 / 40) = Inr b1" using q [of "1 / 40"] by auto
  obtain b2 where b2: "ss_quantile vals (39 / 40) = Inr b2" using q [of "39 / 40"] by auto
  obtain c1 where c1: "ss_quantile vals (1 / 200) = Inr c1" using q [of "1 / 200"] by auto
  obtain c2 where c2: "ss_quantile vals (199 / 200) = Inr c2" using q [of "199 / 200"] by auto
  obtain m where m: "ss_quantile vals (1 / 2) = Inr m" using q [of "1 / 2"] by auto
  show ?thesis using assms by (simp add: Let_def a1 a2 b1 b2 c1 c2 m ss_mean_def)
qed

lemma intervals_for_default:
  "\<exists>r. intervals_for [90 / 100, 95 / 100, 99 / 100] ms = Inr r"
proof (induction ms)
  case Nil
  then show ?case by simp
next
  case (Cons x ms)
  obtain metric vals where x: "x = (metric, vals)" by (cases x)
  show ?case
  proof (cases "vals = []")
    case True
    then show ?thesis using Cons by (simp add: x)
  next
    case False
    from interval_levels_default [OF False] obtain ivs where
      "interval_levels vals [90 / 100, 95 / 100, 99 / 100] = Inr ivs" by blast
    then show ?thesis using Cons False by (auto simp: x)
  qed
qed

lemma scenario3_config:
  "config (scenario3_engine baseline ps) = cfg \<Longrightarrow>
     numSimulations cfg = 1000 \<and> robustnessThreshold cfg = 1 / 2 \<and>
     returnDistribution cfg = Bootstrap \<and> blockBootstrapLength cfg = 22 \<and>
     confidenceLevels cfg = [90 / 100, 95 / 100, 99 / 100]"
  by (auto simp: scenario3_engine_def initialize_def new_MonteCarloConfidenceEngine_def
        new_MonteCarloConfig_def scenario3_input_def or_default_def or_default_int_def)

lemma scenario3_parts:
  "simulator (scenario3_engine baseline ps)
     = Some \<lparr> strategyFunction = constant_strategy baseline, baseParameters = ps \<rparr>"
  "baselineReturns (scenario3_engine baseline ps) = baseline"
  by (simp_all add: scenario3_engine_def initialize_def)

text \<open>The score of the run, when the baseline scenario is not the failure sentinel: all
  1000 scenarios have the baseline's total return \<open>B\<close> and Sharpe ratio \<open>Sh\<close>, and each of
  the three rates is 0 or 1.\<close>

lemma scenario3_score:
  assumes u: "unit_interval random"
    and B: "sc_totalReturn (simulateStrategy
              \<lparr> strategyFunction = constant_strategy baseline, baseParameters = ps \<rparr> baseline None) = B"
    and Sh: "sc_sharpeRatio (simulateStrategy
              \<lparr> strategyFunction = constant_strategy baseline, baseParameters = ps \<rparr> baseline None) = Sh"
    and ok: "B \<noteq> - 1"
  shows "reported_score (runConfidenceAnalysis (scenario3_engine baseline ps) random k)
         = Some (4 / 10 * indicator (B \<ge> B * (1 / 2)) + 4 / 10 * indicator (Sh \<ge> Sh * (1 / 2))
                 + 2 / 10 * indicator (B > 0))"
proof -
  let ?sim = "\<lparr> strategyFunction = constant_strategy baseline, baseParameters = ps \<rparr>"
  let ?E = "scenario3_engine baseline ps"
  let ?cfg = "config ?E"
  have c: "numSimulations ?cfg = 1000" "robustnessThreshold ?cfg = 1 / 2"
    "returnDistribution ?cfg = Bootstrap" "blockBootstrapLength ?cfg = 22"
    "confidenceLevels ?cfg = [90 / 100, 95 / 100, 99 / 100]"
    using scenario3_config [OF refl, of baseline ps] by simp_all
  have f: "strategyFunction ?sim = constant_strategy baseline" by simp
  have bl: "1 \<le> blockBootstrapLength ?cfg" by (simp add: c)
  from simulations_loop_constant [OF f c(3) bl u, of 1000 k] obtain sims k' where
    l: "simulations_loop ?cfg baseline ?sim random 1000 k = Some (sims, k')"
    and n: "length sims = 1000"
    and a: "\<forall>s \<in> set sims. sc_totalReturn s = B \<and> sc_sharpeRatio s = Sh"
    by (auto simp: B Sh)
  have keep: "filter (\<lambda>s. sc_totalReturn s \<noteq> - 1) sims = sims"
    using a ok by (auto simp: filter_id_conv)
  have run: "runMonteCarloSimulations ?cfg baseline ?sim random k = Some (sims, k')"
    by (simp add: runMonteCarloSimulations_def c l keep)
  have ne: "sims \<noteq> []" using n by auto
  have "\<exists>ivs. calculateConfidenceIntervals ?cfg sims = Inr ivs"
    unfolding calculateConfidenceIntervals_def c(5) by (rule intervals_for_default)
  then obtain ivs where ivs: "calculateConfidenceIntervals ?cfg sims = Inr ivs" by blast
  from calculateRobustnessMetrics_constant [OF ne a B Sh, of ?cfg] obtain m where
    m: "calculateRobustnessMetrics ?cfg (simulateStrategy ?sim baseline None) sims = Inr m"
    and v: "percentileAboveThreshold (returnRobustness m) = indicator (B \<ge> B * (1 / 2))"
       "sh_percentileAboveThreshold (sharpeRobustness m) = indicator (Sh \<ge> Sh * (1 / 2))"
       "percentilePositive (returnRobustness m) = indicator (B > 0)"
    by (auto simp: c)
  show ?thesis
    by (simp add: runConfidenceAnalysis_def scenario3_parts run ivs m Let_def reported_score_def
          score_of_metrics v)
qed

lemma baseline_metrics:
  assumes "baseline \<noteq> []"
  shows "sc_totalReturn (simulateStrategy
            \<lparr> strategyFunction = constant_strategy baseline, baseParameters = ps \<rparr> baseline None)
          = calculateTotalReturn baseline"
    and "calculateSharpeRatio baseline (5 / 100)
          = Inr (sc_sharpeRatio (simulateStrategy
              \<lparr> strategyFunction = constant_strategy baseline, baseParameters = ps \<rparr> baseline None))"
  using assms
  by (simp_all add: simulateStrategy_def try_simulate_def constant_strategy_def Let_def
        new_SimulationScenario_def calculateSharpeRatio_def ss_mean_def ss_standardDeviation_def)

lemma sharpe_sign:
  assumes "calculateSharpeRatio rs rf = Inr s"
  shows "sum_list (map (\<lambda>r. r - rf / 252) rs) \<ge> 0 \<Longrightarrow> s \<ge> 0"
    and "sum_list (map (\<lambda>r. r - rf / 252) rs) < 0 \<Longrightarrow>
         sum_list (map (\<lambda>x. (x - sum_list (map (\<lambda>r. r - rf / 252) rs) / real (length rs))\<^sup>2)
                    (map (\<lambda>r. r - rf / 252) rs)) > 0 \<Longrightarrow> s < 0"
proof -
  let ?e = "map (\<lambda>r. r - rf / 252) rs"
  let ?m = "sum_list ?e / real (length rs)"
  let ?sd = "sqrt (sum_list (map (\<lambda>x. (x - ?m)\<^sup>2) ?e) / real (length rs))"
  have ne: "rs \<noteq> []" using assms
    by (auto simp: calculateSharpeRatio_def ss_mean_def Let_def split: if_splits)
  have "Inr (if ?sd > 0 then (?m * sqrt 252) / (?sd * sqrt 252) else 0) = (Inr s :: error + real)"
    using assms ne
    by (simp only: calculateSharpeRatio_def ss_mean_def ss_standardDeviation_def Let_def
          map_is_Nil_conv if_False sum.case length_map)
  then have s: "s = (if ?sd > 0 then (?m * sqrt 252) / (?sd * sqrt 252) else 0)"
    by (simp only: sum.inject)
  have n: "0 < real (length rs)" using ne by simp
  define m where "m = ?m"
  define sd where "sd = ?sd"
  have s': "s = (if sd > 0 then (m * sqrt 252) / (sd * sqrt 252) else 0)"
    using s by (simp only: m_def sd_def)
  {
    assume "sum_list ?e \<ge> 0"
    then have "m \<ge> 0" using n by (simp add: m_def)
    then show "s \<ge> 0" by (simp add: s')
  }
  {
    assume neg: "sum_list ?e < 0"
      and var: "sum_list (map (\<lambda>x. (x - ?m)\<^sup>2) ?e) > 0"
    have m: "m < 0" using neg n by (simp add: m_def divide_neg_pos)
    have "sum_list (map (\<lambda>x. (x - ?m)\<^sup>2) ?e) / real (length rs) > 0"
      using var n by (rule divide_pos_pos)
    then have sd: "sd > 0" unfolding sd_def by (simp only: real_sqrt_gt_0_iff)
    have "(m * sqrt 252) / (sd * sqrt 252) < 0"
      using m sd by (intro divide_neg_pos mult_neg_pos mult_pos_pos) simp_all
    then show "s < 0" using sd by (simp add: s')
  }
qed

text \<open>When the baseline scenario carries the sentinel \<open>-1\<close>, so does every simulation;
  all are filtered out and \<open>quantile\<close> throws on the empty list.\<close>

lemma scenario3_all_failed:
  assumes u: "unit_interval random"
    and B: "sc_totalReturn (simulateStrategy
              \<lparr> strategyFunction = constant_strategy baseline, baseParameters = ps \<rparr> baseline None) = - 1"
  shows "reported_score (runConfidenceAnalysis (scenario3_engine baseline ps) random k) = None"
proof -
  let ?sim = "\<lparr> strategyFunction = constant_strategy baseline, baseParameters = ps \<rparr>"
  let ?E = "scenario3_engine baseline ps"
  let ?cfg = "config ?E"
  have c: "numSimulations ?cfg = 1000" "robustnessThreshold ?cfg = 1 / 2"
    "returnDistribution ?cfg = Bootstrap" "blockBootstrapLength ?cfg = 22"
    "confidenceLevels ?cfg = [90 / 100, 95 / 100, 99 / 100]"
    using scenario3_config [OF refl, of baseline ps] by simp_all
  have f: "strategyFunction ?sim = constant_strategy baseline" by simp
  have bl: "1 \<le> blockBootstrapLength ?cfg" by (simp add: c)
  from simulations_loop_constant [OF f c(3) bl u, of 1000 k] obtain sims k' where
    l: "simulations_loop ?cfg baseline ?sim random 1000 k = Some (sims, k')"
    and a: "\<forall>s \<in> set sims. sc_totalReturn s = - 1"
    by (auto simp: B)
  have drop: "filter (\<lambda>s. sc_totalReturn s \<noteq> - 1) sims = []"
    using a by (auto simp: filter_empty_conv)
  have run: "runMonteCarloSimulations ?cfg baseline ?sim random k = Some ([], k')"
    by (simp add: runMonteCarloSimulations_def c l drop)
  have ci: "calculateConfidenceIntervals ?cfg [] = Inr []"
    by (simp add: calculateConfidenceIntervals_def finite_values_def)
  have rm: "calculateRobustnessMetrics ?cfg (simulateStrategy ?sim baseline None) [] = Inl LibraryError"
    by (simp add: calculateRobustnessMetrics_def ss_quantile_def Let_def)
  show ?thesis
    by (simp add: runConfidenceAnalysis_def scenario3_parts run ci rm Let_def reported_score_def)
qed

text \<open>
  Claim C4, as stated, fails: for the baseline series \<open>[-0.10, 0.05]\<close> the total return
  is \<open>-0.055\<close> and the Sharpe ratio is negative, so no scenario reaches half of the
  baseline (\<open>x >= 0.5 * x\<close> is false for negative \<open>x\<close>), none is positive, and the run
  reports the score 0.
\<close>

theorem robustnessScore_losing_baseline:
  "reported_score (runConfidenceAnalysis (scenario3_engine [- 1 / 10, 1 / 20] []) half_draws 0) = Some 0"
proof -
  let ?bl = "[- 1 / 10, 1 / 20] :: real list"
  let ?b = "simulateStrategy
              \<lparr> strategyFunction = constant_strategy ?bl, baseParameters = [] \<rparr> ?bl None"
  have ne: "?bl \<noteq> []" by simp
  have B: "sc_totalReturn ?b = - 11 / 200"
    using baseline_metrics(1) [OF ne, of "[]"] by (simp add: calculateTotalReturn_def)
  have S: "sc_sharpeRatio ?b < 0"
    by (rule sharpe_sign(2) [OF baseline_metrics(2) [OF ne, of "[]"]]) (simp_all add: power2_eq_square)
  have ok: "sc_totalReturn ?b \<noteq> - 1" using B by simp
  have i: "\<not> sc_sharpeRatio ?b * (1 / 2) \<le> sc_sharpeRatio ?b" using S by auto
  show ?thesis
    unfolding scenario3_score [OF unit_interval_half_draws refl refl ok]
    using i B by (simp add: indicator_def)
qed

text \<open>
  Claim C4, amended. A run with \<open>numSimulations = 1000\<close>, \<open>robustnessThreshold = 0.5\<close>
  and a strategy function that always returns the baseline series reports a robustness
  score of 1.0 exactly when the baseline's total return is positive and its Sharpe ratio
  is not negative, both as the simulator computes them; the score being
  \<open>0.4 * returnRobustness + 0.4 * sharpeRobustness + 0.2 * positiveReturnRate\<close>.
\<close>

theorem robustnessScore_one_iff:
  assumes u: "unit_interval random"
  shows "reported_score (runConfidenceAnalysis (scenario3_engine baseline ps) random k) = Some 1
     \<longleftrightarrow> 0 < sc_totalReturn (simulateStrategy
              \<lparr> strategyFunction = constant_strategy baseline, baseParameters = ps \<rparr> baseline None)
         \<and> 0 \<le> sc_sharpeRatio (simulateStrategy
              \<lparr> strategyFunction = constant_strategy baseline, baseParameters = ps \<rparr> baseline None)"
proof -
  let ?b = "simulateStrategy
              \<lparr> strategyFunction = constant_strategy baseline, baseParameters = ps \<rparr> baseline None"
  show ?thesis
  proof (cases "sc_totalReturn ?b = - 1")
    case True
    then show ?thesis using scenario3_all_failed [OF u True, of k] by simp
  next
    case False
    have i: "sc_sharpeRatio ?b * (1 / 2) \<le> sc_sharpeRatio ?b \<longleftrightarrow> 0 \<le> sc_sharpeRatio ?b"
      by auto
    have j: "sc_totalReturn ?b * (1 / 2) \<le> sc_totalReturn ?b \<longleftrightarrow> 0 \<le> sc_totalReturn ?b"
      by auto
    show ?thesis
      unfolding scenario3_score [OF u refl refl False] i j
      by (auto simp: indicator_def)
  qed
qed

theorem robustnessScore_one_iff_witness:
  "unit_interval half_draws \<and>
   reported_score (runConfidenceAnalysis (scenario3_engine [1 / 10, 1 / 5] []) half_draws 0) = Some 1"
proof -
  let ?bl = "[1 / 10, 1 / 5] :: real list"
  let ?b = "simulateStrategy
              \<lparr> strategyFunction = constant_strategy ?bl, baseParameters = [] \<rparr> ?bl None"
  have ne: "?bl \<noteq> []" by simp
  have B: "0 < sc_totalReturn ?b"
    using baseline_metrics(1) [OF ne, of "[]"] by (simp add: calculateTotalReturn_def)
  have S: "0 \<le> sc_sharpeRatio ?b"
    by (rule sharpe_sign(1) [OF baseline_metrics(2) [OF ne, of "[]"]]) simp
  show ?thesis
    using unit_interval_half_draws B S
      robustnessScore_one_iff [OF unit_interval_half_draws, of ?bl "[]" 0]
    by blast
qed

section \<open>Properties of the strategy optimizer\<close>

lemma foldl_keeps_None:
  assumes "\<forall>c \<in> set cells. step None c = None"
  shows "foldl step None cells = None"
  using assms by (induction cells) simp_all

lemma rp_cell_fails_None: "rp_cell_fails opt cov cell \<Longrightarrow> rp_cell opt cov None cell = None"
  by (auto simp: rp_cell_fails_def rp_cell_def bestScore_def Let_def split: prod.splits sum.splits)

lemma mv_cell_fails_None:
  "mv_cell_fails opt er cov t \<Longrightarrow> mv_cell opt er cov None t = None"
  by (auto simp: mv_cell_fails_def mv_cell_def bestScore_def Let_def split: prod.splits sum.splits)

lemma bl_cell_fails_None: "bl_cell_fails opt cov cell \<Longrightarrow> bl_cell opt cov None cell = None"
  by (auto simp: bl_cell_fails_def bl_cell_def bestScore_def Let_def
        split: prod.splits sum.splits option.splits)

lemma dispatch_without_result:
  assumes "every_combination_fails opt method dataWindow ranges"
  shows "dispatch opt method dataWindow ranges = Inr (getFallbackStrategy opt)
         \<or> (\<exists>e. dispatch opt method dataWindow ranges = Inl e)"
proof (cases "windowData opt dataWindow")
  case (Inl e)
  then show ?thesis
    by (simp add: dispatch_def optimizeRiskParity_def optimizeMeanVariance_def
          optimizeBlackLitterman_def)
next
  case (Inr d)
  obtain windowReturns cov where d: "d = (windowReturns, cov)" by (cases d)
  consider (rp) "method = ''risk_parity''" | (mv) "method = ''mean_variance''"
    | (bl) "method = ''black_litterman''"
    | (other) "method \<noteq> ''risk_parity''" "method \<noteq> ''mean_variance''"
        "method \<noteq> ''black_litterman''"
    by blast
  then show ?thesis
  proof cases
    case rp
    have "\<forall>cell \<in> set (rp_grid ranges). rp_cell opt cov None cell = None"
      using assms Inr d rp by (auto simp: every_combination_fails_def rp_cell_fails_None)
    then have "foldl (rp_cell opt cov) None (rp_grid ranges) = None"
      by (rule foldl_keeps_None [of _ "rp_cell opt cov"])
    then show ?thesis
      using Inr d rp by (simp add: dispatch_def optimizeRiskParity_def or_fallback_def)
  next
    case mv
    show ?thesis
    proof (cases "mean_each windowReturns")
      case (Inl e)
      then show ?thesis using Inr d mv by (simp add: dispatch_def optimizeMeanVariance_def)
    next
      case er: (Inr expectedReturns)
      have "\<forall>t \<in> set (mv_grid ranges expectedReturns).
              mv_cell opt expectedReturns cov None t = None"
        using assms Inr d mv er by (auto simp: every_combination_fails_def mv_cell_fails_None)
      then have "foldl (mv_cell opt expectedReturns cov) None (mv_grid ranges expectedReturns) = None"
        by (rule foldl_keeps_None [of _ "mv_cell opt expectedReturns cov"])
      then show ?thesis
        using Inr d mv er by (simp add: dispatch_def optimizeMeanVariance_def or_fallback_def)
    qed
  next
    case bl
    have "\<forall>cell \<in> set (bl_grid ranges). bl_cell opt cov None cell = None"
      using assms Inr d bl by (auto simp: every_combination_fails_def bl_cell_fails_None)
    then have "foldl (bl_cell opt cov) None (bl_grid ranges) = None"
      by (rule foldl_keeps_None [of _ "bl_cell opt cov"])
    then show ?thesis
      using Inr d bl by (simp add: dispatch_def optimizeBlackLitterman_def or_fallback_def)
  next
    case other
    then show ?thesis by (simp add: dispatch_def)
  qed
qed

lemma optimizeStrategy_never_raises:
  "\<exists>result. optimizeStrategy opt method dataWindow ranges = Inr result"
  by (simp add: optimizeStrategy_def split: sum.splits)

text \<open>
  Claim C8. For every optimization method and data window, if every parameter
  combination of the grid fails (its routine throws or its result is not usable),
  \<open>optimizeStrategy\<close> does not raise: it returns the fallback, whose weights are all
  \<open>1 / numberOfSymbols\<close>.
\<close>

theorem optimizeStrategy_falls_back:
  assumes "every_combination_fails opt method dataWindow ranges"
  shows "optimizeStrategy opt method dataWindow ranges = Inr (getFallbackStrategy opt) \<and>
         sr_fallback (getFallbackStrategy opt) \<and>
         sr_weights (getFallbackStrategy opt)
           = replicate (length (opt_symbols opt)) (1 / real (length (opt_symbols opt)))"
  using dispatch_without_result [OF assms]
  by (auto simp: optimizeStrategy_def getFallbackStrategy_def Let_def)

theorem optimizeStrategy_falls_back_witness:
  "every_combination_fails throwing_optimizer ''risk_parity'' () default_ranges \<and>
   optimizeStrategy throwing_optimizer ''risk_parity'' () default_ranges
     = Inr \<lparr> sr_weights = [1 / 4, 1 / 4, 1 / 4, 1 / 4], sr_parameters = EqualWeightMethod,
             sr_score = Score 0, sr_fallback = True \<rparr>"
proof -
  have h: "every_combination_fails throwing_optimizer ''risk_parity'' () default_ranges"
    by (simp add: every_combination_fails_def throwing_optimizer_def rp_cell_fails_def)
  have "getFallbackStrategy throwing_optimizer
          = \<lparr> sr_weights = [1 / 4, 1 / 4, 1 / 4, 1 / 4], sr_parameters = EqualWeightMethod,
              sr_score = Score 0, sr_fallback = True \<rparr>"
    by (simp add: getFallbackStrategy_def throwing_optimizer_def Let_def numeral_eq_Suc)
  then show ?thesis
    using h optimizeStrategy_falls_back [OF h] by simp
qed

end
